theory Spec2Isabelle
  imports Complex_Main "HOL-Library.AList"
begin

section \<open>Python values, exceptions and the builtins the accessors call\<close>

text \<open>
  Exceptions are values. \<open>ValueError\<close> carries its message where the source writes one;
  \<open>TypeError\<close> is what \<open>int(None)\<close> and \<open>float(None)\<close> raise, \<open>AttributeError\<close> what a
  method call on \<open>None\<close> raises (\<open>None.lower()\<close>, \<open>None.upper()\<close>, \<open>None.replace(...)\<close>).
\<close>

datatype error = ValueError string | TypeError | AttributeError

text \<open>
  A value returned by an accessor whose result is one of the package constants or an
  integer. A raw cell is a \<open>string option\<close>: \<open>None\<close> is Python's \<open>None\<close>.
\<close>

datatype pyval = PInt int | PStr string

subsection \<open>\<open>str.lower\<close>, \<open>str.upper\<close>, \<open>str.replace\<close>\<close>

text \<open>
  A string is a list of characters with the code points 0 to 255. In that range
  \<open>str.lower\<close> maps the letters A to Z and the letters \<open>0xC0\<close> to \<open>0xDE\<close> (without the
  multiplication sign \<open>0xD7\<close>), each to one character; \<open>str.upper\<close> maps a to z and
  \<open>0xE0\<close> to \<open>0xFE\<close> (without the division sign \<open>0xF7\<close>) back, and the sharp s
  \<open>0xDF\<close> to the two letters \<open>SS\<close>. The upper-case forms of \<open>0xB5\<close> and \<open>0xFF\<close> have
  code points above 255 that no other character of the range reaches; in an upper-cased
  string the two characters stand for them.
\<close>

definition ascii_uppercase :: string where
  "ascii_uppercase = ''ABCDEFGHIJKLMNOPQRSTUVWXYZ''"

definition ascii_lowercase :: string where
  "ascii_lowercase = ''abcdefghijklmnopqrstuvwxyz''"

definition latin1_uppercase :: string where
  "latin1_uppercase =
     [CHR 0xC0, CHR 0xC1, CHR 0xC2, CHR 0xC3, CHR 0xC4, CHR 0xC5, CHR 0xC6, CHR 0xC7,
      CHR 0xC8, CHR 0xC9, CHR 0xCA, CHR 0xCB, CHR 0xCC, CHR 0xCD, CHR 0xCE, CHR 0xCF,
      CHR 0xD0, CHR 0xD1, CHR 0xD2, CHR 0xD3, CHR 0xD4, CHR 0xD5, CHR 0xD6, CHR 0xD8,
      CHR 0xD9, CHR 0xDA, CHR 0xDB, CHR 0xDC, CHR 0xDD, CHR 0xDE]"

definition latin1_lowercase :: string where
  "latin1_lowercase =
     [CHR 0xE0, CHR 0xE1, CHR 0xE2, CHR 0xE3, CHR 0xE4, CHR 0xE5, CHR 0xE6, CHR 0xE7,
      CHR 0xE8, CHR 0xE9, CHR 0xEA, CHR 0xEB, CHR 0xEC, CHR 0xED, CHR 0xEE, CHR 0xEF,
      CHR 0xF0, CHR 0xF1, CHR 0xF2, CHR 0xF3, CHR 0xF4, CHR 0xF5, CHR 0xF6, CHR 0xF8,
      CHR 0xF9, CHR 0xFA, CHR 0xFB, CHR 0xFC, CHR 0xFD, CHR 0xFE]"

definition char_lower :: "char \<Rightarrow> char" where
  "char_lower c =
     (case map_of (zip (ascii_uppercase @ latin1_uppercase) (ascii_lowercase @ latin1_lowercase)) c of
        None \<Rightarrow> c
      | Some d \<Rightarrow> d)"

definition char_upper :: "char \<Rightarrow> string" where
  "char_upper c =
     (if c = CHR 0xDF then ''SS''
      else
        (case map_of (zip (ascii_lowercase @ latin1_lowercase) (ascii_uppercase @ latin1_uppercase)) c of
           None \<Rightarrow> [c]
         | Some d \<Rightarrow> [d]))"

definition lower :: "string \<Rightarrow> string" where
  "lower s = map char_lower s"

definition upper :: "string \<Rightarrow> string" where
  "upper s = concat (map char_upper s)"

text \<open>\<open>s.replace(',', '')\<close>: every comma is deleted.\<close>

definition replace_comma :: "string \<Rightarrow> string" where
  "replace_comma s = filter (\<lambda>c. c \<noteq> CHR '','') s"

text \<open>\<open>'%s' % v\<close>: a string is itself, \<open>None\<close> prints as \<open>None\<close>.\<close>

definition py_str :: "string option \<Rightarrow> string" where
  "py_str v = (case v of None \<Rightarrow> ''None'' | Some s \<Rightarrow> s)"

subsection \<open>\<open>int(...)\<close>\<close>

text \<open>
  The decimal digits among the code points 0 to 255 are 0 to 9, for \<open>int\<close> and for
  \<open>\d\<close> in \<open>re.findall\<close> below.
\<close>

definition digit_chars :: string where
  "digit_chars = ''0123456789''"

definition is_digit :: "char \<Rightarrow> bool" where
  "is_digit c = (c \<in> set digit_chars)"

definition digit_val :: "char \<Rightarrow> nat" where
  "digit_val c = length (takeWhile (\<lambda>d. d \<noteq> c) digit_chars)"

text \<open>
  The characters \<open>int\<close> and \<open>float\<close> strip from both ends: tab, newline, vertical tab,
  form feed, carriage return, space, and the two spaces above 127, next line \<open>0x85\<close> and
  no-break space \<open>0xA0\<close>.
\<close>

definition is_space :: "char \<Rightarrow> bool" where
  "is_space c = ((of_char c :: nat) \<in> {9, 10, 11, 12, 13, 32, 133, 160})"

definition strip :: "string \<Rightarrow> string" where
  "strip s = rev (dropWhile is_space (rev (dropWhile is_space s)))"

text \<open>
  The digits of a decimal literal: one or more digits, where single underscores may stand
  between two digits. \<open>prev\<close> says that the character before was a digit.
\<close>

fun int_digits :: "string \<Rightarrow> bool \<Rightarrow> nat \<Rightarrow> nat option" where
  "int_digits [] prev acc = (if prev then Some acc else None)"
| "int_digits (c # cs) prev acc =
     (if is_digit c then int_digits cs True (10 * acc + digit_val c)
      else if c = CHR ''_'' \<and> prev \<and> cs \<noteq> [] \<and> is_digit (hd cs) then int_digits cs False acc
      else None)"

definition invalid_literal :: "string \<Rightarrow> error" where
  "invalid_literal s = ValueError (''invalid literal for int() with base 10: '' @ s)"

text \<open>
  The interpreter refuses to convert a literal of more than \<open>sys.get_int_max_str_digits()\<close>
  digits, 4300 unless the program changes it, which these sources do not.
\<close>

definition int_max_str_digits :: nat where
  "int_max_str_digits = 4300"

definition exceeds_limit :: error where
  "exceeds_limit = ValueError ''Exceeds the limit (4300 digits) for integer string conversion''"

text \<open>
  The text after the sign, in the order of the interpreter: it scans the digits and
  underscores and rejects a misplaced underscore or an empty scan, then counts the digits
  against the limit, converts, and rejects a literal with anything left after the scan.
  \<open>s\<close> is the whole text, for the message.
\<close>

definition int_of_unsigned :: "string \<Rightarrow> string \<Rightarrow> error + nat" where
  "int_of_unsigned s body =
     (let scan = takeWhile (\<lambda>c. is_digit c \<or> c = CHR ''_'') body;
          rest = dropWhile (\<lambda>c. is_digit c \<or> c = CHR ''_'') body
      in case int_digits scan False 0 of
           None \<Rightarrow> Inl (invalid_literal s)
         | Some n \<Rightarrow>
             if length (filter is_digit scan) > int_max_str_digits then Inl exceeds_limit
             else if rest \<noteq> [] then Inl (invalid_literal s)
             else Inr n)"

text \<open>\<open>int(s)\<close> for a string: surrounding whitespace, an optional sign, the digits.\<close>

definition int_of_str :: "string \<Rightarrow> error + int" where
  "int_of_str s =
     (case strip s of
        [] \<Rightarrow> Inl (invalid_literal s)
      | c # cs \<Rightarrow>
          if c = CHR ''-'' then
            (case int_of_unsigned s cs of Inl e \<Rightarrow> Inl e | Inr n \<Rightarrow> Inr (- int n))
          else if c = CHR ''+'' then
            (case int_of_unsigned s cs of Inl e \<Rightarrow> Inl e | Inr n \<Rightarrow> Inr (int n))
          else
            (case int_of_unsigned s (c # cs) of Inl e \<Rightarrow> Inl e | Inr n \<Rightarrow> Inr (int n)))"

text \<open>\<open>int(v)\<close> for a raw cell: \<open>int(None)\<close> is a \<open>TypeError\<close>.\<close>

definition py_int :: "string option \<Rightarrow> error + int" where
  "py_int v = (case v of None \<Rightarrow> Inl TypeError | Some s \<Rightarrow> int_of_str s)"

subsection \<open>\<open>float(...)\<close>\<close>

text \<open>
  The conversion of a string to a float is the builtin's and is a parameter \<open>conv\<close> of
  every accessor that calls it; \<open>float(None)\<close> is a \<open>TypeError\<close> whatever the conversion.
\<close>

definition py_float :: "(string \<Rightarrow> error + real) \<Rightarrow> string option \<Rightarrow> error + real" where
  "py_float conv v = (case v of None \<Rightarrow> Inl TypeError | Some s \<Rightarrow> conv s)"

text \<open>
  A concrete conversion for the examples: the number a plain decimal literal denotes,
  \<open>[sign] digits [. digits]\<close> with at least one digit. The builtin returns the double
  nearest to that number, which is the number itself for literals such as \<open>2.5\<close> and
  \<open>.5\<close>.
\<close>

fun digits_nat :: "string \<Rightarrow> nat \<Rightarrow> nat" where
  "digits_nat [] acc = acc"
| "digits_nat (c # cs) acc = digits_nat cs (10 * acc + digit_val c)"

definition decimal_unsigned :: "string \<Rightarrow> real option" where
  "decimal_unsigned s =
     (let ip = takeWhile (\<lambda>c. c \<noteq> CHR ''.'') s;
          fp = drop 1 (dropWhile (\<lambda>c. c \<noteq> CHR ''.'') s)
      in if list_all is_digit ip \<and> list_all is_digit fp \<and> ip @ fp \<noteq> []
         then Some (real (digits_nat ip 0) + real (digits_nat fp 0) / 10 ^ length fp)
         else None)"

definition could_not_convert :: "string \<Rightarrow> error" where
  "could_not_convert s = ValueError (''could not convert string to float: '' @ s)"

definition decimal_float :: "string \<Rightarrow> error + real" where
  "decimal_float s =
     (case strip s of
        [] \<Rightarrow> Inl (could_not_convert s)
      | c # cs \<Rightarrow>
          if c = CHR ''-'' then
            (case decimal_unsigned cs of None \<Rightarrow> Inl (could_not_convert s) | Some x \<Rightarrow> Inr (- x))
          else if c = CHR ''+'' then
            (case decimal_unsigned cs of None \<Rightarrow> Inl (could_not_convert s) | Some x \<Rightarrow> Inr x)
          else
            (case decimal_unsigned (c # cs) of None \<Rightarrow> Inl (could_not_convert s) | Some x \<Rightarrow> Inr x))"

section \<open>\<open>nba/teams.py\<close>\<close>

subsection \<open>\<open>Team\<close>\<close>

text \<open>
  A \<open>Team\<close> holds \<open>_year\<close>, \<open>_rank\<close> and one attribute for each name of \<open>Team_fields\<close>;
  \<open>t_attrs t f\<close> is the value of the attribute \<open>_f\<close>, a string or \<open>None\<close>.
\<close>

record Team =
  t_year :: string
  t_rank :: int
  t_attrs :: "string \<Rightarrow> string option"

definition Team_fields :: "string list" where
  "Team_fields =
    [''abbreviation'', ''name'', ''games_played'', ''minutes_played'', ''field_goals'',
     ''field_goal_attempts'', ''field_goal_percentage'', ''three_point_field_goals'',
     ''three_point_field_goal_attempts'', ''three_point_field_goal_percentage'',
     ''two_point_field_goals'', ''two_point_field_goal_attempts'',
     ''two_point_field_goal_percentage'', ''free_throws'', ''free_throw_attempts'',
     ''free_throw_percentage'', ''offensive_rebounds'', ''defensive_rebounds'',
     ''total_rebounds'', ''assists'', ''steals'', ''blocks'', ''turnovers'',
     ''personal_fouls'', ''points'', ''opp_field_goals'', ''opp_field_goal_attempts'',
     ''opp_field_goal_percentage'', ''opp_three_point_field_goals'',
     ''opp_three_point_field_goal_attempts'', ''opp_three_point_field_goal_percentage'',
     ''opp_two_point_field_goals'', ''opp_two_point_field_goal_attempts'',
     ''opp_two_point_field_goal_percentage'', ''opp_free_throws'',
     ''opp_free_throw_attempts'', ''opp_free_throw_percentage'',
     ''opp_offensive_rebounds'', ''opp_defensive_rebounds'', ''opp_total_rebounds'',
     ''opp_assists'', ''opp_steals'', ''opp_blocks'', ''opp_turnovers'',
     ''opp_personal_fouls'', ''opp_points'']"

text \<open>
  \<open>utils._parse_field(PARSING_SCHEME, team_data, field)\<close> is the parameter \<open>pf\<close>: it
  reads the cell named \<open>field\<close> out of the row data and gives its text or \<open>None\<close>.
  Row data is a list (a string, or the elements of a query result), \<open>+=\<close> appends.

  \<open>_parse_team_data\<close>: every attribute but \<open>_rank\<close> and \<open>_year\<close> is set to what the
  parser gives for its name; a name that is no attribute has no value.
\<close>

definition parse_team_data ::
  "('a list \<Rightarrow> string \<Rightarrow> string option) \<Rightarrow> 'a list \<Rightarrow> string \<Rightarrow> string option" where
  "parse_team_data pf team_data =
     (\<lambda>field. if field \<in> set Team_fields then pf team_data field else None)"

definition Team_init ::
  "('a list \<Rightarrow> string \<Rightarrow> string option) \<Rightarrow> 'a list \<Rightarrow> int \<Rightarrow> string \<Rightarrow> Team" where
  "Team_init pf team_data rnk year =
     \<lparr>t_year = year, t_rank = rnk, t_attrs = parse_team_data pf team_data\<rparr>"

text \<open>The accessors: \<open>rank\<close> is already an \<open>int\<close>, so \<open>int(self._rank)\<close> is the rank.\<close>

definition Team_rank :: "Team \<Rightarrow> int" where
  "Team_rank t = t_rank t"

definition Team_abbreviation :: "Team \<Rightarrow> string option" where
  "Team_abbreviation t = t_attrs t ''abbreviation''"

definition Team_name :: "Team \<Rightarrow> string option" where
  "Team_name t = t_attrs t ''name''"

definition Team_games_played :: "Team \<Rightarrow> error + int" where
  "Team_games_played t = py_int (t_attrs t ''games_played'')"

definition Team_minutes_played :: "Team \<Rightarrow> error + int" where
  "Team_minutes_played t = py_int (t_attrs t ''minutes_played'')"

definition Team_field_goals :: "Team \<Rightarrow> error + int" where
  "Team_field_goals t = py_int (t_attrs t ''field_goals'')"

definition Team_field_goal_attempts :: "Team \<Rightarrow> error + int" where
  "Team_field_goal_attempts t = py_int (t_attrs t ''field_goal_attempts'')"

definition Team_field_goal_percentage ::
  "(string \<Rightarrow> error + real) \<Rightarrow> Team \<Rightarrow> error + real" where
  "Team_field_goal_percentage conv t =
     py_float conv (t_attrs t ''field_goal_percentage'')"

definition Team_three_point_field_goals :: "Team \<Rightarrow> error + int" where
  "Team_three_point_field_goals t = py_int (t_attrs t ''three_point_field_goals'')"

definition Team_three_point_field_goal_attempts :: "Team \<Rightarrow> error + int" where
  "Team_three_point_field_goal_attempts t = py_int (t_attrs t ''three_point_field_goal_attempts'')"

definition Team_three_point_field_goal_percentage ::
  "(string \<Rightarrow> error + real) \<Rightarrow> Team \<Rightarrow> error + real" where
  "Team_three_point_field_goal_percentage conv t =
     py_float conv (t_attrs t ''three_point_field_goal_percentage'')"

definition Team_two_point_field_goals :: "Team \<Rightarrow> error + int" where
  "Team_two_point_field_goals t = py_int (t_attrs t ''two_point_field_goals'')"

definition Team_two_point_field_goal_attempts :: "Team \<Rightarrow> error + int" where
  "Team_two_point_field_goal_attempts t = py_int (t_attrs t ''two_point_field_goal_attempts'')"

definition Team_two_point_field_goal_percentage ::
  "(string \<Rightarrow> error + real) \<Rightarrow> Team \<Rightarrow> error + real" where
  "Team_two_point_field_goal_percentage conv t =
     py_float conv (t_attrs t ''two_point_field_goal_percentage'')"

definition Team_free_throws :: "Team \<Rightarrow> error + int" where
  "Team_free_throws t = py_int (t_attrs t ''free_throws'')"

definition Team_free_throw_attempts :: "Team \<Rightarrow> error + int" where
  "Team_free_throw_attempts t = py_int (t_attrs t ''free_throw_attempts'')"

definition Team_free_throw_percentage ::
  "(string \<Rightarrow> error + real) \<Rightarrow> Team \<Rightarrow> error + real" where
  "Team_free_throw_percentage conv t =
     py_float conv (t_attrs t ''free_throw_percentage'')"

definition Team_offensive_rebounds :: "Team \<Rightarrow> error + int" where
  "Team_offensive_rebounds t = py_int (t_attrs t ''offensive_rebounds'')"

definition Team_defensive_rebounds :: "Team \<Rightarrow> error + int" where
  "Team_defensive_rebounds t = py_int (t_attrs t ''defensive_rebounds'')"

definition Team_total_rebounds :: "Team \<Rightarrow> error + int" where
  "Team_total_rebounds t = py_int (t_attrs t ''total_rebounds'')"

definition Team_assists :: "Team \<Rightarrow> error + int" where
  "Team_assists t = py_int (t_attrs t ''assists'')"

definition Team_steals :: "Team \<Rightarrow> error + int" where
  "Team_steals t = py_int (t_attrs t ''steals'')"

definition Team_blocks :: "Team \<Rightarrow> error + int" where
  "Team_blocks t = py_int (t_attrs t ''blocks'')"

definition Team_turnovers :: "Team \<Rightarrow> error + int" where
  "Team_turnovers t = py_int (t_attrs t ''turnovers'')"

definition Team_personal_fouls :: "Team \<Rightarrow> error + int" where
  "Team_personal_fouls t = py_int (t_attrs t ''personal_fouls'')"

definition Team_points :: "Team \<Rightarrow> error + int" where
  "Team_points t = py_int (t_attrs t ''points'')"

definition Team_opp_field_goals :: "Team \<Rightarrow> error + int" where
  "Team_opp_field_goals t = py_int (t_attrs t ''opp_field_goals'')"

definition Team_opp_field_goal_attempts :: "Team \<Rightarrow> error + int" where
  "Team_opp_field_goal_attempts t = py_int (t_attrs t ''opp_field_goal_attempts'')"

definition Team_opp_field_goal_percentage ::
  "(string \<Rightarrow> error + real) \<Rightarrow> Team \<Rightarrow> error + real" where
  "Team_opp_field_goal_percentage conv t =
     py_float conv (t_attrs t ''opp_field_goal_percentage'')"

definition Team_opp_three_point_field_goals :: "Team \<Rightarrow> error + int" where
  "Team_opp_three_point_field_goals t = py_int (t_attrs t ''opp_three_point_field_goals'')"

definition Team_opp_three_point_field_goal_attempts :: "Team \<Rightarrow> error + int" where
  "Team_opp_three_point_field_goal_attempts t = py_int (t_attrs t ''opp_three_point_field_goal_attempts'')"

definition Team_opp_three_point_field_goal_percentage ::
  "(string \<Rightarrow> error + real) \<Rightarrow> Team \<Rightarrow> error + real" where
  "Team_opp_three_point_field_goal_percentage conv t =
     py_float conv (t_attrs t ''opp_three_point_field_goal_percentage'')"

definition Team_opp_two_point_field_goals :: "Team \<Rightarrow> error + int" where
  "Team_opp_two_point_field_goals t = py_int (t_attrs t ''opp_two_point_field_goals'')"

definition Team_opp_two_point_field_goal_attempts :: "Team \<Rightarrow> error + int" where
  "Team_opp_two_point_field_goal_attempts t = py_int (t_attrs t ''opp_two_point_field_goal_attempts'')"

definition Team_opp_two_point_field_goal_percentage ::
  "(string \<Rightarrow> error + real) \<Rightarrow> Team \<Rightarrow> error + real" where
  "Team_opp_two_point_field_goal_percentage conv t =
     py_float conv (t_attrs t ''opp_two_point_field_goal_percentage'')"

definition Team_opp_free_throws :: "Team \<Rightarrow> error + int" where
  "Team_opp_free_throws t = py_int (t_attrs t ''opp_free_throws'')"

definition Team_opp_free_throw_attempts :: "Team \<Rightarrow> error + int" where
  "Team_opp_free_throw_attempts t = py_int (t_attrs t ''opp_free_throw_attempts'')"

definition Team_opp_free_throw_percentage ::
  "(string \<Rightarrow> error + real) \<Rightarrow> Team \<Rightarrow> error + real" where
  "Team_opp_free_throw_percentage conv t =
     py_float conv (t_attrs t ''opp_free_throw_percentage'')"

definition Team_opp_offensive_rebounds :: "Team \<Rightarrow> error + int" where
  "Team_opp_offensive_rebounds t = py_int (t_attrs t ''opp_offensive_rebounds'')"

definition Team_opp_defensive_rebounds :: "Team \<Rightarrow> error + int" where
  "Team_opp_defensive_rebounds t = py_int (t_attrs t ''opp_defensive_rebounds'')"

definition Team_opp_total_rebounds :: "Team \<Rightarrow> error + int" where
  "Team_opp_total_rebounds t = py_int (t_attrs t ''opp_total_rebounds'')"

definition Team_opp_assists :: "Team \<Rightarrow> error + int" where
  "Team_opp_assists t = py_int (t_attrs t ''opp_assists'')"

definition Team_opp_steals :: "Team \<Rightarrow> error + int" where
  "Team_opp_steals t = py_int (t_attrs t ''opp_steals'')"

definition Team_opp_blocks :: "Team \<Rightarrow> error + int" where
  "Team_opp_blocks t = py_int (t_attrs t ''opp_blocks'')"

definition Team_opp_turnovers :: "Team \<Rightarrow> error + int" where
  "Team_opp_turnovers t = py_int (t_attrs t ''opp_turnovers'')"

definition Team_opp_personal_fouls :: "Team \<Rightarrow> error + int" where
  "Team_opp_personal_fouls t = py_int (t_attrs t ''opp_personal_fouls'')"

definition Team_opp_points :: "Team \<Rightarrow> error + int" where
  "Team_opp_points t = py_int (t_attrs t ''opp_points'')"

subsection \<open>\<open>Teams\<close>\<close>

text \<open>
  \<open>team_data_dict\<close>: a dictionary keeps its keys in the order of their insertion and
  \<open>values()\<close> follows that order, so it is an association list; a key is what the parser
  gives for \<open>'abbreviation'\<close>. An entry is the inner dictionary with the keys \<open>'data'\<close>
  and \<open>'rank'\<close>.
\<close>

record 'a entry =
  data :: "'a list"
  rank :: int

type_synonym 'a team_data_dict = "(string option \<times> 'a entry) list"

text \<open>
  The loop of \<open>_add_stats_data\<close>, with the counter \<open>rnk\<close>. The \<open>try\<close> branch appends
  the row to the data of an entry that exists; \<open>KeyError\<close> inserts a new entry, at the
  end, with the counter as rank. The counter moves with every row.
\<close>

fun add_stats_loop ::
  "('a list \<Rightarrow> string \<Rightarrow> string option) \<Rightarrow> 'a list list \<Rightarrow> int \<Rightarrow> 'a team_data_dict
     \<Rightarrow> 'a team_data_dict" where
  "add_stats_loop pf [] rnk d = d"
| "add_stats_loop pf (team_data # teams_list) rnk d =
     (let abbr = pf team_data ''abbreviation''
      in add_stats_loop pf teams_list (rnk + 1)
           (case map_of d abbr of
              Some e \<Rightarrow> AList.update abbr (e\<lparr>data := data e @ team_data\<rparr>) d
            | None \<Rightarrow> d @ [(abbr, \<lparr>data = team_data, rank = rnk\<rparr>)]))"

definition add_stats_data ::
  "('a list \<Rightarrow> string \<Rightarrow> string option) \<Rightarrow> 'a list list \<Rightarrow> 'a team_data_dict
     \<Rightarrow> 'a team_data_dict" where
  "add_stats_data pf teams_list team_data_dict = add_stats_loop pf teams_list 1 team_data_dict"

text \<open>
  \<open>_retrieve_all_teams\<close>, from the two tables of the season document on: the first loop
  runs \<open>_add_stats_data\<close> over the offense table and then the opponent table, the second
  builds a \<open>Team\<close> from every value of the dictionary.
\<close>

definition build_team_data_dict ::
  "('a list \<Rightarrow> string \<Rightarrow> string option) \<Rightarrow> 'a list list \<Rightarrow> 'a list list \<Rightarrow> 'a team_data_dict" where
  "build_team_data_dict pf teams_list opp_teams_list =
     foldl (\<lambda>d stats_list. add_stats_data pf stats_list d) [] [teams_list, opp_teams_list]"

definition retrieve_all_teams ::
  "('a list \<Rightarrow> string \<Rightarrow> string option) \<Rightarrow> 'a list list \<Rightarrow> 'a list list \<Rightarrow> string \<Rightarrow> Team list" where
  "retrieve_all_teams pf teams_list opp_teams_list year =
     map (\<lambda>team_data. Team_init pf (data team_data) (rank team_data) year)
       (map snd (build_team_data_dict pf teams_list opp_teams_list))"

text \<open>
  \<open>Teams.__getitem__\<close>: the first team whose abbreviation equals the query after
  upper-casing both; \<open>team.abbreviation.upper()\<close> on \<open>None\<close> is an \<open>AttributeError\<close>.
\<close>

fun Teams_getitem :: "Team list \<Rightarrow> string \<Rightarrow> error + Team" where
  "Teams_getitem [] abbreviation =
     Inl (ValueError (''Team abbreviation '' @ abbreviation @ '' not found''))"
| "Teams_getitem (team # teams) abbreviation =
     (case Team_abbreviation team of
        None \<Rightarrow> Inl AttributeError
      | Some a \<Rightarrow> if upper a = upper abbreviation then Inr team
                  else Teams_getitem teams abbreviation)"

section \<open>\<open>nhl/schedule.py\<close>\<close>

subsection \<open>Constants and \<open>datetime\<close>\<close>

text \<open>
  The constants the module imports (\<open>sportsreference.constants\<close>,
  \<open>sportsreference.nhl.constants\<close>) are parameters of the accessors that return them.
\<close>

record constants =
  WIN :: pyval
  LOSS :: pyval
  OVERTIME_LOSS :: pyval
  SHOOTOUT :: pyval
  HOME :: pyval
  AWAY :: pyval

record datetime =
  dt_year :: int
  dt_month :: int
  dt_day :: int
  dt_hour :: int
  dt_minute :: int

subsection \<open>\<open>re.findall('\d+', s)\<close>\<close>

text \<open>The maximal runs of digits, from left to right.\<close>

function findall_digits :: "string \<Rightarrow> string list" where
  "findall_digits [] = []"
| "findall_digits (c # cs) =
     (if is_digit c then (c # takeWhile is_digit cs) # findall_digits (dropWhile is_digit cs)
      else findall_digits cs)"
  by pat_completeness auto
termination
  by (relation "measure length") (auto simp: length_dropWhile_le le_imp_less_Suc)

subsection \<open>\<open>Game\<close>\<close>

text \<open>\<open>g_attrs g f\<close> is the value of the attribute \<open>_f\<close> of the game.\<close>

record Game =
  g_attrs :: "string \<Rightarrow> string option"

definition Game_fields :: "string list" where
  "Game_fields =
    [''game'', ''date'', ''time'', ''boxscore'', ''location'', ''opponent_abbr'',
     ''opponent_name'', ''goals_scored'', ''goals_allowed'', ''result'', ''overtime'',
     ''wins'', ''losses'', ''overtime_losses'', ''streak'', ''shots_on_goal'',
     ''penalties_in_minutes'', ''power_play_goals'', ''power_play_opportunities'',
     ''short_handed_goals'', ''attendance'', ''length_of_game'']"

text \<open>
  \<open>_parse_game_data\<close>: \<open>pf\<close> is \<open>utils.parse_field(SCHEDULE_SCHEME, game_data, short_name)\<close>;
  \<open>pa\<close> and \<open>pb\<close> are the two extractions from a hyperlink (\<open>_parse_abbreviation\<close>,
  \<open>_parse_boxscore\<close>), which give a string.
\<close>

definition parse_game_data ::
  "('r \<Rightarrow> string \<Rightarrow> string option) \<Rightarrow> ('r \<Rightarrow> string) \<Rightarrow> ('r \<Rightarrow> string) \<Rightarrow> 'r
     \<Rightarrow> string \<Rightarrow> string option" where
  "parse_game_data pf pa pb game_data =
     (\<lambda>short_name.
        if short_name \<in> set Game_fields then
          (if short_name = ''opponent_abbr'' then Some (pa game_data)
           else if short_name = ''boxscore'' then Some (pb game_data)
           else pf game_data short_name)
        else None)"

definition Game_init ::
  "('r \<Rightarrow> string \<Rightarrow> string option) \<Rightarrow> ('r \<Rightarrow> string) \<Rightarrow> ('r \<Rightarrow> string) \<Rightarrow> 'r \<Rightarrow> Game" where
  "Game_init pf pa pb game_data = \<lparr>g_attrs = parse_game_data pf pa pb game_data\<rparr>"

definition Game_game :: "Game \<Rightarrow> error + int" where
  "Game_game g = py_int (g_attrs g ''game'')"

definition Game_date :: "Game \<Rightarrow> string option" where
  "Game_date g = g_attrs g ''date''"

definition Game_time :: "Game \<Rightarrow> string option" where
  "Game_time g = g_attrs g ''time''"

text \<open>
  \<open>datetime.strptime(date_string, '%Y-%m-%d %I:%M %p')\<close> is the parameter \<open>strptime\<close>.
\<close>

definition Game_datetime :: "(string \<Rightarrow> error + datetime) \<Rightarrow> Game \<Rightarrow> error + datetime" where
  "Game_datetime strptime g =
     (let date_string = py_str (g_attrs g ''date'') @ '' '' @ py_str (g_attrs g ''time'')
      in strptime date_string)"

definition Game_location :: "constants \<Rightarrow> Game \<Rightarrow> pyval" where
  "Game_location K g = (if g_attrs g ''location'' = Some ''@'' then AWAY K else HOME K)"

definition Game_opponent_abbr :: "Game \<Rightarrow> string option" where
  "Game_opponent_abbr g = g_attrs g ''opponent_abbr''"

definition Game_opponent_name :: "Game \<Rightarrow> string option" where
  "Game_opponent_name g = g_attrs g ''opponent_name''"

definition Game_goals_scored :: "Game \<Rightarrow> error + int" where
  "Game_goals_scored g = py_int (g_attrs g ''goals_scored'')"

definition Game_goals_allowed :: "Game \<Rightarrow> error + int" where
  "Game_goals_allowed g = py_int (g_attrs g ''goals_allowed'')"

definition Game_overtime :: "constants \<Rightarrow> Game \<Rightarrow> error + pyval" where
  "Game_overtime K g =
     (case g_attrs g ''overtime'' of
        None \<Rightarrow> Inl AttributeError
      | Some s \<Rightarrow>
          if lower s = ''ot'' then Inr (PInt 1)
          else if lower s = ''so'' then Inr (SHOOTOUT K)
          else if s = [] then Inr (PInt 0)
          else
            (let num = findall_digits s
             in if length num > 0 then
                  (case int_of_str (num ! 0) of Inl e \<Rightarrow> Inl e | Inr n \<Rightarrow> Inr (PInt n))
                else Inr (PInt 0)))"

text \<open>
  \<open>result\<close>: the second test is \<open>self._result.lower() == 'l' and self.overtime != 0\<close>, so
  the overtime accessor runs only for a loss.
\<close>

definition Game_result :: "constants \<Rightarrow> Game \<Rightarrow> error + pyval" where
  "Game_result K g =
     (case g_attrs g ''result'' of
        None \<Rightarrow> Inl AttributeError
      | Some r \<Rightarrow>
          if lower r = ''w'' then Inr (WIN K)
          else if lower r = ''l'' then
            (case Game_overtime K g of
               Inl e \<Rightarrow> Inl e
             | Inr v \<Rightarrow> if v \<noteq> PInt 0 then Inr (OVERTIME_LOSS K) else Inr (LOSS K))
          else Inr (LOSS K))"

definition Game_wins :: "Game \<Rightarrow> error + int" where
  "Game_wins g = py_int (g_attrs g ''wins'')"

definition Game_losses :: "Game \<Rightarrow> error + int" where
  "Game_losses g = py_int (g_attrs g ''losses'')"

definition Game_overtime_losses :: "Game \<Rightarrow> error + int" where
  "Game_overtime_losses g = py_int (g_attrs g ''overtime_losses'')"

definition Game_streak :: "Game \<Rightarrow> string option" where
  "Game_streak g = g_attrs g ''streak''"

definition Game_shots_on_goal :: "Game \<Rightarrow> error + int" where
  "Game_shots_on_goal g = py_int (g_attrs g ''shots_on_goal'')"

definition Game_penalties_in_minutes :: "Game \<Rightarrow> error + int" where
  "Game_penalties_in_minutes g = py_int (g_attrs g ''penalties_in_minutes'')"

definition Game_power_play_goals :: "Game \<Rightarrow> error + int" where
  "Game_power_play_goals g = py_int (g_attrs g ''power_play_goals'')"

definition Game_power_play_opportunities :: "Game \<Rightarrow> error + int" where
  "Game_power_play_opportunities g = py_int (g_attrs g ''power_play_opportunities'')"

definition Game_short_handed_goals :: "Game \<Rightarrow> error + int" where
  "Game_short_handed_goals g = py_int (g_attrs g ''short_handed_goals'')"

text \<open>\<open>attendance\<close>: \<open>self._attendance.replace(',', '')\<close> first, then \<open>int\<close>.\<close>

definition Game_attendance :: "Game \<Rightarrow> error + int" where
  "Game_attendance g =
     (case g_attrs g ''attendance'' of
        None \<Rightarrow> Inl AttributeError
      | Some a \<Rightarrow> (let attendance = replace_comma a in int_of_str attendance))"

definition Game_length_of_game :: "Game \<Rightarrow> string option" where
  "Game_length_of_game g = g_attrs g ''length_of_game''"

subsection \<open>\<open>Schedule\<close>\<close>

text \<open>
  \<open>Schedule.__call__\<close>: the first game whose \<open>datetime\<close> has the year, month and day of
  the argument. A game whose date and time do not parse raises what \<open>strptime\<close> raises.
\<close>

fun Schedule_call ::
  "(string \<Rightarrow> error + datetime) \<Rightarrow> Game list \<Rightarrow> datetime \<Rightarrow> error + Game" where
  "Schedule_call strptime [] date = Inl (ValueError ''No games found for requested date'')"
| "Schedule_call strptime (game # games) date =
     (case Game_datetime strptime game of
        Inl e \<Rightarrow> Inl e
      | Inr dt \<Rightarrow>
          if dt_year dt = dt_year date \<and> dt_month dt = dt_month date \<and> dt_day dt = dt_day date
          then Inr game
          else Schedule_call strptime games date)"

section \<open>Example inputs\<close>

text \<open>
  A row is the list of its cells, each a name and a text, and the parser gives the text
  of the first cell of a name. In the example season the offense table lists GSW twice.
\<close>

definition example_parse_field :: "(string \<times> string) list \<Rightarrow> string \<Rightarrow> string option" where
  "example_parse_field row field = map_of row field"

definition example_offense :: "(string \<times> string) list list" where
  "example_offense =
     [[(''abbreviation'', ''GSW''), (''points'', ''9304'')],
      [(''abbreviation'', ''BOS''), (''points'', ''8529'')],
      [(''abbreviation'', ''GSW''), (''field_goal_percentage'', ''.503'')]]"

definition example_opponent :: "(string \<times> string) list list" where
  "example_opponent =
     [[(''abbreviation'', ''BOS''), (''opp_points'', ''8227'')],
      [(''abbreviation'', ''GSW''), (''opp_points'', ''8829'')]]"

definition example_team :: "(string \<times> string) list \<Rightarrow> Team" where
  "example_team row = Team_init example_parse_field row 1 ''2018''"

definition example_constants :: constants where
  "example_constants =
     \<lparr>WIN = PStr ''Win'', LOSS = PStr ''Loss'', OVERTIME_LOSS = PStr ''OTL'',
      SHOOTOUT = PStr ''SO'', HOME = PStr ''Home'', AWAY = PStr ''Away''\<rparr>"

definition example_game :: "(string \<times> string) list \<Rightarrow> Game" where
  "example_game row =
     Game_init example_parse_field (\<lambda>r. ''NYR'') (\<lambda>r. ''201710050NYR.html'') row"

definition example_strptime :: "string \<Rightarrow> error + datetime" where
  "example_strptime date_string =
     (case map_of
        [(''2017-10-05 7:00 PM'',
            \<lparr>dt_year = 2017, dt_month = 10, dt_day = 5, dt_hour = 19, dt_minute = 0\<rparr>),
         (''2017-10-07 1:00 PM'',
            \<lparr>dt_year = 2017, dt_month = 10, dt_day = 7, dt_hour = 13, dt_minute = 0\<rparr>)]
        date_string of
        None \<Rightarrow> Inl (ValueError ''time data does not match format'')
      | Some dt \<Rightarrow> Inr dt)"

definition example_schedule :: "Game list" where
  "example_schedule =
     [example_game [(''date'', ''2017-10-05''), (''time'', ''7:00 PM'')],
      example_game [(''date'', ''2017-10-07''), (''time'', ''1:00 PM'')]]"

section \<open>Evaluating the builtins on literals\<close>

lemmas int_of_str_eval =
  int_of_str_def int_of_unsigned_def int_max_str_digits_def strip_def is_space_def is_digit_def
  digit_val_def digit_chars_def

section \<open>The row aggregator\<close>

lemma Team_init_attrs:
  "t_attrs (Team_init pf row r y) f = (if f \<in> set Team_fields then pf row f else None)"
  by (simp add: Team_init_def parse_team_data_def)

lemma append_new_key_is_update:
  "map_of d k = None \<Longrightarrow> d @ [(k, v)] = AList.update k v d"
  by (induction d) (auto split: if_splits)

lemma add_stats_loop_step:
  "add_stats_loop pf (x # xs) r d =
     add_stats_loop pf xs (r + 1)
       (AList.update (pf x ''abbreviation'')
          (case map_of d (pf x ''abbreviation'') of
             Some e \<Rightarrow> e\<lparr>data := data e @ x\<rparr>
           | None \<Rightarrow> \<lparr>data = x, rank = r\<rparr>) d)"
  by (simp add: append_new_key_is_update split: option.splits)

lemma add_stats_loop_keys:
  "fst ` set (add_stats_loop pf xs r d) = fst ` set d \<union> (\<lambda>x. pf x ''abbreviation'') ` set xs"
proof (induction xs arbitrary: r d)
  case Nil
  then show ?case by simp
next
  case (Cons x xs)
  show ?case
    unfolding add_stats_loop_step Cons.IH dom_update by auto
qed

lemma add_stats_loop_distinct:
  "distinct (map fst d) \<Longrightarrow> distinct (map fst (add_stats_loop pf xs r d))"
proof (induction xs arbitrary: r d)
  case Nil
  then show ?case by simp
next
  case (Cons x xs)
  show ?case
    unfolding add_stats_loop_step
    by (rule Cons.IH) (simp add: distinct_update Cons.prems)
qed

lemma add_stats_loop_map_of:
  "map_of (add_stats_loop pf xs r d) k =
     (case map_of d k of
        Some e \<Rightarrow> Some (e\<lparr>data := data e @ concat (filter (\<lambda>x. pf x ''abbreviation'' = k) xs)\<rparr>)
      | None \<Rightarrow>
          if k \<in> (\<lambda>x. pf x ''abbreviation'') ` set xs
          then Some \<lparr>data = concat (filter (\<lambda>x. pf x ''abbreviation'' = k) xs),
                     rank = r + int (length (takeWhile (\<lambda>x. pf x ''abbreviation'' \<noteq> k) xs))\<rparr>
          else None)"
proof (induction xs arbitrary: r d)
  case Nil
  then show ?case by (simp split: option.splits)
next
  case (Cons x xs)
  show ?case
    unfolding add_stats_loop_step Cons.IH update_conv'
    by (auto split: option.splits)
qed

lemma build_team_data_dict_unfold:
  "build_team_data_dict pf off opp = add_stats_loop pf opp 1 (add_stats_loop pf off 1 [])"
  by (simp add: build_team_data_dict_def add_stats_data_def)

lemma build_team_data_dict_distinct:
  "distinct (map fst (build_team_data_dict pf off opp))"
  unfolding build_team_data_dict_unfold
  by (intro add_stats_loop_distinct) simp

lemma build_team_data_dict_keys:
  "set (map fst (build_team_data_dict pf off opp)) =
     (\<lambda>x. pf x ''abbreviation'') ` (set off \<union> set opp)"
  unfolding build_team_data_dict_unfold set_map add_stats_loop_keys by auto

lemma build_team_data_dict_map_of:
  "map_of (build_team_data_dict pf off opp) k =
     (if k \<in> (\<lambda>x. pf x ''abbreviation'') ` set off
      then Some \<lparr>data = concat (filter (\<lambda>x. pf x ''abbreviation'' = k) off)
                         @ concat (filter (\<lambda>x. pf x ''abbreviation'' = k) opp),
                 rank = 1 + int (length (takeWhile (\<lambda>x. pf x ''abbreviation'' \<noteq> k) off))\<rparr>
      else if k \<in> (\<lambda>x. pf x ''abbreviation'') ` set opp
      then Some \<lparr>data = concat (filter (\<lambda>x. pf x ''abbreviation'' = k) opp),
                 rank = 1 + int (length (takeWhile (\<lambda>x. pf x ''abbreviation'' \<noteq> k) opp))\<rparr>
      else None)"
  unfolding build_team_data_dict_unfold add_stats_loop_map_of [of pf opp]
    add_stats_loop_map_of [of pf off]
  by simp

lemma build_team_data_dict_entry:
  assumes "(k, e) \<in> set (build_team_data_dict pf off opp)"
  shows "map_of (build_team_data_dict pf off opp) k = Some e"
  using assms build_team_data_dict_distinct [of pf off opp] by simp

lemma build_team_data_dict_data:
  assumes "(k, e) \<in> set (build_team_data_dict pf off opp)"
  shows "data e = concat (filter (\<lambda>x. pf x ''abbreviation'' = k) off)
                   @ concat (filter (\<lambda>x. pf x ''abbreviation'' = k) opp)"
proof -
  have empty_off: "concat (filter (\<lambda>x. pf x ''abbreviation'' = k) off) = []"
    if "k \<notin> (\<lambda>x. pf x ''abbreviation'') ` set off"
  proof -
    have "filter (\<lambda>x. pf x ''abbreviation'' = k) off = []"
      using that by (auto simp: filter_empty_conv)
    then show ?thesis by simp
  qed
  from build_team_data_dict_entry [OF assms] show ?thesis
    unfolding build_team_data_dict_map_of
    by (auto split: if_splits simp: empty_off)
qed

lemma build_team_data_dict_rank:
  assumes "(k, e) \<in> set (build_team_data_dict pf off opp)"
    and "k \<in> (\<lambda>x. pf x ''abbreviation'') ` set off"
  shows "rank e = 1 + int (length (takeWhile (\<lambda>x. pf x ''abbreviation'' \<noteq> k) off))"
  using build_team_data_dict_entry [OF assms(1)] assms(2)
  unfolding build_team_data_dict_map_of by auto

text \<open>
  C1. Processing the offense table and then the opponent table gives one entry, and so
  one \<open>Team\<close>, for each distinct abbreviation: the keys of the dictionary are distinct,
  they are the abbreviations of the rows of both tables, there are as many teams as
  distinct abbreviations, and each team is built from the concatenation of the rows with
  its abbreviation, those of the offense table first, then those of the opponent table.
\<close>

theorem retrieve_all_teams_one_record_per_abbreviation:
  "distinct (map fst (build_team_data_dict pf off opp))
   \<and> set (map fst (build_team_data_dict pf off opp))
       = (\<lambda>x. pf x ''abbreviation'') ` (set off \<union> set opp)
   \<and> length (retrieve_all_teams pf off opp year)
       = card ((\<lambda>x. pf x ''abbreviation'') ` (set off \<union> set opp))
   \<and> retrieve_all_teams pf off opp year
       = map (\<lambda>(k, e). Team_init pf
                (concat (filter (\<lambda>x. pf x ''abbreviation'' = k) off)
                   @ concat (filter (\<lambda>x. pf x ''abbreviation'' = k) opp))
                (rank e) year)
           (build_team_data_dict pf off opp)"
proof -
  let ?d = "build_team_data_dict pf off opp"
  have dist: "distinct (map fst ?d)"
    by (rule build_team_data_dict_distinct)
  have keys: "set (map fst ?d) = (\<lambda>x. pf x ''abbreviation'') ` (set off \<union> set opp)"
    by (rule build_team_data_dict_keys)
  have "length (retrieve_all_teams pf off opp year) = length (map fst ?d)"
    by (simp add: retrieve_all_teams_def)
  also have "\<dots> = card (set (map fst ?d))"
    using dist by (simp only: distinct_card)
  finally have len: "length (retrieve_all_teams pf off opp year)
      = card ((\<lambda>x. pf x ''abbreviation'') ` (set off \<union> set opp))"
    unfolding keys .
  have teams: "retrieve_all_teams pf off opp year
      = map (\<lambda>(k, e). Team_init pf
                (concat (filter (\<lambda>x. pf x ''abbreviation'' = k) off)
                   @ concat (filter (\<lambda>x. pf x ''abbreviation'' = k) opp))
                (rank e) year) ?d"
    unfolding retrieve_all_teams_def map_map
    by (rule map_cong) (auto simp: build_team_data_dict_data)
  from dist keys len teams show ?thesis by blast
qed

text \<open>
  C2. For a team that occurs in the offense table, the rank stored in its \<open>Team\<close> and
  returned by the \<open>rank\<close> accessor is one more than the number of offense rows before
  the first row with its abbreviation, whatever rows follow in either table; running
  \<open>_add_stats_data\<close> over any later table leaves the rank of its entry as it is.
\<close>

theorem rank_is_first_position_in_offense_table:
  assumes "(k, t) \<in> set (zip (map fst (build_team_data_dict pf off opp))
                            (retrieve_all_teams pf off opp year))"
    and "k \<in> (\<lambda>x. pf x ''abbreviation'') ` set off"
  shows "Team_rank t = 1 + int (length (takeWhile (\<lambda>x. pf x ''abbreviation'' \<noteq> k) off))
         \<and> t_rank t = Team_rank t
         \<and> (\<forall>later. \<exists>e. map_of (add_stats_data pf later (build_team_data_dict pf off opp)) k
                 = Some e \<and> rank e = Team_rank t)"
proof -
  let ?d = "build_team_data_dict pf off opp"
  from assms(1) obtain i where i: "i < length ?d" "k = fst (?d ! i)"
    "t = retrieve_all_teams pf off opp year ! i"
    by (auto simp: set_zip)
  obtain e where e: "?d ! i = (k, e)"
    using i(2) by (cases "?d ! i") simp
  then have mem: "(k, e) \<in> set ?d"
    using i(1) by (metis nth_mem)
  have "t = Team_init pf (data e) (rank e) year"
    using i(1) i(3) e by (simp add: retrieve_all_teams_def)
  then have stored: "Team_rank t = rank e"
    by (simp add: Team_rank_def Team_init_def)
  have first: "rank e = 1 + int (length (takeWhile (\<lambda>x. pf x ''abbreviation'' \<noteq> k) off))"
    by (rule build_team_data_dict_rank [OF mem assms(2)])
  have kept: "\<exists>e'. map_of (add_stats_data pf later ?d) k = Some e' \<and> rank e' = rank e" for later
    unfolding add_stats_data_def add_stats_loop_map_of build_team_data_dict_entry [OF mem]
    by simp
  from stored first kept show ?thesis
    by (simp add: Team_rank_def)
qed

lemma example_dict:
  "build_team_data_dict example_parse_field example_offense example_opponent =
     [(Some ''GSW'',
         \<lparr>data = [(''abbreviation'', ''GSW''), (''points'', ''9304''),
                  (''abbreviation'', ''GSW''), (''field_goal_percentage'', ''.503''),
                  (''abbreviation'', ''GSW''), (''opp_points'', ''8829'')],
          rank = 1\<rparr>),
      (Some ''BOS'',
         \<lparr>data = [(''abbreviation'', ''BOS''), (''points'', ''8529''),
                  (''abbreviation'', ''BOS''), (''opp_points'', ''8227'')],
          rank = 2\<rparr>)]"
  by (simp add: build_team_data_dict_def add_stats_data_def example_parse_field_def
      example_offense_def example_opponent_def)

theorem retrieve_all_teams_one_record_per_abbreviation_witness:
  "length (retrieve_all_teams example_parse_field example_offense example_opponent ''2018'') = 2
   \<and> map Team_abbreviation
        (retrieve_all_teams example_parse_field example_offense example_opponent ''2018'')
       = [Some ''GSW'', Some ''BOS'']
   \<and> map Team_points
        (retrieve_all_teams example_parse_field example_offense example_opponent ''2018'')
       = [Inr 9304, Inr 8529]
   \<and> map Team_opp_points
        (retrieve_all_teams example_parse_field example_offense example_opponent ''2018'')
       = [Inr 8829, Inr 8227]"
proof -
  have nums: "int_of_str ''9304'' = Inr 9304" "int_of_str ''8529'' = Inr 8529"
    "int_of_str ''8829'' = Inr 8829" "int_of_str ''8227'' = Inr 8227"
    by (simp_all add: int_of_str_eval)
  have teams: "retrieve_all_teams example_parse_field example_offense example_opponent ''2018'' =
      [Team_init example_parse_field
         [(''abbreviation'', ''GSW''), (''points'', ''9304''),
          (''abbreviation'', ''GSW''), (''field_goal_percentage'', ''.503''),
          (''abbreviation'', ''GSW''), (''opp_points'', ''8829'')] 1 ''2018'',
       Team_init example_parse_field
         [(''abbreviation'', ''BOS''), (''points'', ''8529''),
          (''abbreviation'', ''BOS''), (''opp_points'', ''8227'')] 2 ''2018'']"
    by (simp add: retrieve_all_teams_def example_dict)
  have len: "length (retrieve_all_teams example_parse_field example_offense example_opponent ''2018'')
      = card ((\<lambda>x. example_parse_field x ''abbreviation'')
               ` (set example_offense \<union> set example_opponent))"
    using retrieve_all_teams_one_record_per_abbreviation [of example_parse_field example_offense
        example_opponent "''2018''"]
    by (elim conjE)
  have count: "card ((\<lambda>x. example_parse_field x ''abbreviation'')
               ` (set example_offense \<union> set example_opponent)) = 2"
  proof -
    have "(\<lambda>x. example_parse_field x ''abbreviation'')
               ` (set example_offense \<union> set example_opponent) = {Some ''GSW'', Some ''BOS''}"
      by (auto simp: example_parse_field_def example_offense_def example_opponent_def)
    then show ?thesis by simp
  qed
  have a: "length (retrieve_all_teams example_parse_field example_offense example_opponent ''2018'')
      = 2"
    using len count by (simp only:)
  have b: "map Team_abbreviation
        (retrieve_all_teams example_parse_field example_offense example_opponent ''2018'')
       = [Some ''GSW'', Some ''BOS'']"
    by (simp add: teams Team_abbreviation_def Team_init_attrs Team_fields_def
        example_parse_field_def)
  have c: "map Team_points
        (retrieve_all_teams example_parse_field example_offense example_opponent ''2018'')
       = [Inr 9304, Inr 8529]"
    by (simp add: teams Team_points_def Team_init_attrs Team_fields_def
        example_parse_field_def py_int_def nums)
  have d: "map Team_opp_points
        (retrieve_all_teams example_parse_field example_offense example_opponent ''2018'')
       = [Inr 8829, Inr 8227]"
    by (simp add: teams Team_opp_points_def Team_init_attrs Team_fields_def
        example_parse_field_def py_int_def nums)
  show ?thesis
    by (rule conjI [OF a conjI [OF b conjI [OF c d]]])
qed

theorem rank_is_first_position_in_offense_table_witness:
  "(Some ''BOS'',
      Team_init example_parse_field
        [(''abbreviation'', ''BOS''), (''points'', ''8529''),
         (''abbreviation'', ''BOS''), (''opp_points'', ''8227'')] 2 ''2018'')
      \<in> set (zip (map fst (build_team_data_dict example_parse_field example_offense example_opponent))
                (retrieve_all_teams example_parse_field example_offense example_opponent ''2018''))
   \<and> Some ''BOS'' \<in> (\<lambda>x. example_parse_field x ''abbreviation'') ` set example_offense
   \<and> Team_rank (Team_init example_parse_field
        [(''abbreviation'', ''BOS''), (''points'', ''8529''),
         (''abbreviation'', ''BOS''), (''opp_points'', ''8227'')] 2 ''2018'') = 2"
proof -
  let ?t = "Team_init example_parse_field
        [(''abbreviation'', ''BOS''), (''points'', ''8529''),
         (''abbreviation'', ''BOS''), (''opp_points'', ''8227'')] 2 ''2018''"
  have h1: "(Some ''BOS'', ?t)
      \<in> set (zip (map fst (build_team_data_dict example_parse_field example_offense example_opponent))
                (retrieve_all_teams example_parse_field example_offense example_opponent ''2018''))"
    by (simp add: retrieve_all_teams_def example_dict)
  have h2: "Some ''BOS'' \<in> (\<lambda>x. example_parse_field x ''abbreviation'') ` set example_offense"
    by (simp add: example_parse_field_def example_offense_def)
  from rank_is_first_position_in_offense_table [OF h1 h2]
  have "Team_rank ?t = 2"
    by (simp add: example_parse_field_def example_offense_def)
  with h1 h2 show ?thesis by (intro conjI)
qed

section \<open>Strings\<close>

lemmas case_defs =
  lower_def upper_def char_lower_def char_upper_def ascii_uppercase_def ascii_lowercase_def
  latin1_uppercase_def latin1_lowercase_def

lemma char_lower_eq_w: "char_lower c = CHR ''w'' \<longleftrightarrow> c = CHR ''w'' \<or> c = CHR ''W''"
  by (simp add: case_defs)

lemma char_lower_eq_l: "char_lower c = CHR ''l'' \<longleftrightarrow> c = CHR ''l'' \<or> c = CHR ''L''"
  by (simp add: case_defs)

lemma char_lower_eq_o: "char_lower c = CHR ''o'' \<longleftrightarrow> c = CHR ''o'' \<or> c = CHR ''O''"
  by (simp add: case_defs)

lemma char_lower_eq_t: "char_lower c = CHR ''t'' \<longleftrightarrow> c = CHR ''t'' \<or> c = CHR ''T''"
  by (simp add: case_defs)

lemma char_lower_eq_s: "char_lower c = CHR ''s'' \<longleftrightarrow> c = CHR ''s'' \<or> c = CHR ''S''"
  by (simp add: case_defs)

lemma lower_eq_w: "lower r = ''w'' \<longleftrightarrow> r = ''w'' \<or> r = ''W''"
  by (cases r) (auto simp: lower_def char_lower_eq_w)

lemma lower_eq_l: "lower r = ''l'' \<longleftrightarrow> r = ''l'' \<or> r = ''L''"
  by (cases r) (auto simp: lower_def char_lower_eq_l)

lemma lower_eq_two:
  "lower s = [a, b] \<longleftrightarrow> (\<exists>c d. s = [c, d] \<and> char_lower c = a \<and> char_lower d = b)"
  by (cases s; cases "tl s") (auto simp: lower_def)

lemma lower_eq_ot: "lower s = ''ot'' \<longleftrightarrow> s \<in> {''ot'', ''Ot'', ''oT'', ''OT''}"
  unfolding lower_eq_two char_lower_eq_o char_lower_eq_t by auto

lemma lower_eq_so: "lower s = ''so'' \<longleftrightarrow> s \<in> {''so'', ''So'', ''sO'', ''SO''}"
  unfolding lower_eq_two char_lower_eq_o char_lower_eq_s by auto






section \<open>Decimal literals\<close>

lemma digit_not_space: "is_digit c \<Longrightarrow> \<not> is_space c"
  by (auto simp: is_digit_def digit_chars_def is_space_def)

lemma digit_not_sign: "is_digit c \<Longrightarrow> c \<noteq> CHR ''-'' \<and> c \<noteq> CHR ''+''"
  by (auto simp: is_digit_def digit_chars_def)

lemma digit_not_letter:
  "is_digit c \<Longrightarrow> c \<notin> {CHR ''o'', CHR ''O'', CHR ''t'', CHR ''T'', CHR ''s'', CHR ''S''}"
  by (auto simp: is_digit_def digit_chars_def)

lemma int_digits_all_digits:
  "list_all is_digit cs \<Longrightarrow>
     int_digits cs prev acc =
       (if cs = [] then (if prev then Some acc else None) else Some (digits_nat cs acc))"
  by (induction cs arbitrary: prev acc) auto

lemma strip_all_digits:
  assumes "list_all is_digit cs"
  shows "strip cs = cs"
proof -
  have lead: "dropWhile is_space cs = cs"
    using assms by (cases cs) (auto simp: digit_not_space)
  have "list_all is_digit (rev cs)"
    using assms by (simp add: list_all_iff)
  then have trail: "dropWhile is_space (rev cs) = rev cs"
    by (cases "rev cs") (auto simp: digit_not_space)
  show ?thesis
    by (simp add: strip_def lead trail)
qed

lemma int_of_unsigned_all_digits:
  assumes "list_all is_digit cs" and "cs \<noteq> []"
  shows "int_of_unsigned s cs =
           (if length cs > int_max_str_digits then Inl exceeds_limit else Inr (digits_nat cs 0))"
proof -
  have all: "\<forall>c \<in> set cs. is_digit c \<or> c = CHR ''_''"
    using assms(1) by (simp add: list_all_iff)
  have scan: "takeWhile (\<lambda>c. is_digit c \<or> c = CHR ''_'') cs = cs"
    using all by (simp add: takeWhile_eq_all_conv)
  have rest: "dropWhile (\<lambda>c. is_digit c \<or> c = CHR ''_'') cs = []"
    using all by simp
  have count: "filter is_digit cs = cs"
    using assms(1) by (simp add: list_all_iff)
  show ?thesis
    using assms(2) int_digits_all_digits [OF assms(1), of False 0]
    by (simp add: int_of_unsigned_def scan rest count)
qed

lemma int_of_str_all_digits:
  assumes "list_all is_digit cs" and "cs \<noteq> []"
  shows "int_of_str cs =
           (if length cs > int_max_str_digits then Inl exceeds_limit
            else Inr (int (digits_nat cs 0)))"
proof -
  from assms obtain c cs' where cs: "cs = c # cs'" and c: "is_digit c"
    by (cases cs) auto
  have stripped: "strip cs = c # cs'"
    using strip_all_digits [OF assms(1)] cs by simp
  note unsigned = int_of_unsigned_all_digits [OF assms, of cs, unfolded cs]
  show ?thesis
    unfolding int_of_str_def stripped
    using digit_not_sign [OF c] by (simp add: unsigned cs)
qed

lemma kept_by_dropWhile: "x \<in> set xs \<Longrightarrow> \<not> P x \<Longrightarrow> x \<in> set (dropWhile P xs)"
  by (induction xs) auto

lemma comma_in_strip: "CHR '','' \<in> set a \<Longrightarrow> CHR '','' \<in> set (strip a)"
  by (simp add: strip_def kept_by_dropWhile is_space_def)

lemma int_of_unsigned_comma:
  assumes "CHR '','' \<in> set body"
  shows "\<exists>e. int_of_unsigned s body = Inl e"
proof -
  let ?P = "\<lambda>c. is_digit c \<or> c = CHR ''_''"
  have "\<not> ?P (CHR '','')"
    by (simp add: is_digit_def digit_chars_def)
  with assms have "CHR '','' \<in> set (dropWhile ?P body)"
    by (rule kept_by_dropWhile)
  then have "dropWhile ?P body \<noteq> []"
    by (metis empty_iff empty_set)
  then show ?thesis
    by (simp add: int_of_unsigned_def Let_def split: option.splits)
qed

lemma int_of_str_comma:
  assumes "CHR '','' \<in> set a"
  shows "\<exists>e. int_of_str a = Inl e"
proof (cases "strip a")
  case Nil
  then show ?thesis by (simp add: int_of_str_def)
next
  case (Cons c cs)
  from comma_in_strip [OF assms] Cons have mem: "CHR '','' \<in> set (c # cs)"
    by simp
  show ?thesis
  proof (cases "c = CHR ''-'' \<or> c = CHR ''+''")
    case True
    with mem have "CHR '','' \<in> set cs" by auto
    from int_of_unsigned_comma [OF this, of a] True Cons show ?thesis
      by (auto simp: int_of_str_def)
  next
    case False
    from int_of_unsigned_comma [OF mem, of a] False Cons show ?thesis
      by (auto simp: int_of_str_def)
  qed
qed

section \<open>findall\<close>

lemma findall_digits_none: "\<forall>c \<in> set s. \<not> is_digit c \<Longrightarrow> findall_digits s = []"
  by (induction s) auto

lemma findall_digits_first:
  "\<exists>c \<in> set s. is_digit c \<Longrightarrow>
     findall_digits s \<noteq> [] \<and>
     findall_digits s ! 0 = takeWhile is_digit (dropWhile (\<lambda>c. \<not> is_digit c) s)"
  by (induction s) auto

lemma first_run_digits:
  "\<exists>c \<in> set s. is_digit c \<Longrightarrow>
     list_all is_digit (takeWhile is_digit (dropWhile (\<lambda>c. \<not> is_digit c) s))
     \<and> takeWhile is_digit (dropWhile (\<lambda>c. \<not> is_digit c) s) \<noteq> []"
  by (induction s) (auto simp: list_all_iff dest: set_takeWhileD)

section \<open>The overtime code and the result\<close>

lemma example_game_attrs:
  "g_attrs (example_game cells) f =
     (if f \<in> set Game_fields then
        (if f = ''opponent_abbr'' then Some ''NYR''
         else if f = ''boxscore'' then Some ''201710050NYR.html''
         else map_of cells f)
      else None)"
  by (simp add: example_game_def Game_init_def parse_game_data_def example_parse_field_def)

lemma Game_overtime_digits:
  assumes "g_attrs g ''overtime'' = Some s" and "\<exists>c \<in> set s. is_digit c"
  shows "Game_overtime K g =
           (if length (takeWhile is_digit (dropWhile (\<lambda>c. \<not> is_digit c) s)) > int_max_str_digits
            then Inl exceeds_limit
            else Inr (PInt (int (digits_nat (takeWhile is_digit (dropWhile (\<lambda>c. \<not> is_digit c) s)) 0))))"
proof -
  let ?run = "takeWhile is_digit (dropWhile (\<lambda>c. \<not> is_digit c) s)"
  from assms(2) obtain c where c: "c \<in> set s" "is_digit c" by blast
  have not_ot: "lower s \<noteq> ''ot''"
    using c digit_not_letter [OF c(2)] unfolding lower_eq_ot by auto
  have not_so: "lower s \<noteq> ''so''"
    using c digit_not_letter [OF c(2)] unfolding lower_eq_so by auto
  have not_empty: "s \<noteq> []"
    using c by auto
  have found: "findall_digits s \<noteq> []" "findall_digits s ! 0 = ?run"
    using findall_digits_first [OF assms(2)] by simp_all
  have run: "list_all is_digit ?run" "?run \<noteq> []"
    using first_run_digits [OF assms(2)] by simp_all
  note int_of_str_all_digits [OF run]
  then show ?thesis
    using assms(1) not_ot not_so not_empty found
    by (simp add: Game_overtime_def)
qed

lemma Game_overtime_no_digits:
  assumes "g_attrs g ''overtime'' = Some s" and "\<forall>c \<in> set s. \<not> is_digit c"
    and "lower s \<noteq> ''ot''" and "lower s \<noteq> ''so''"
  shows "Game_overtime K g = Inr (PInt 0)"
  using assms findall_digits_none [OF assms(2)]
  by (simp add: Game_overtime_def)

text \<open>
  C10 as stated fails: the accessor is not total over strings. On a text of 4301 digits
  \<open>int(num[0])\<close> exceeds the interpreter's limit for the conversion and raises
  \<open>ValueError\<close>.
\<close>

theorem overtime_raises_on_long_digit_run:
  "Game_overtime example_constants (example_game [(''overtime'', replicate 4301 (CHR ''1''))])
     = Inl exceeds_limit"
proof -
  have attr: "g_attrs (example_game [(''overtime'', replicate 4301 (CHR ''1''))]) ''overtime''
      = Some (replicate 4301 (CHR ''1''))"
    by (simp add: example_game_attrs Game_fields_def)
  have one: "is_digit (CHR ''1'')"
    by (simp add: is_digit_def digit_chars_def)
  then have digit: "\<exists>c \<in> set (replicate 4301 (CHR ''1'')). is_digit c"
    by simp
  show ?thesis
    unfolding Game_overtime_digits [OF attr digit]
    by (simp add: one int_max_str_digits_def)
qed

text \<open>
  C10, amended. On a string the overtime accessor returns 1 for \<open>ot\<close> in any letter
  case, the constant \<open>SHOOTOUT\<close> for \<open>so\<close> in any letter case, 0 for the empty string,
  the number written by the first run of digits when the text has a digit and that run
  has at most 4300 digits, and 0 for any other text without digits. When the first run of
  digits is longer, \<open>int\<close> raises its \<open>ValueError\<close>; on every other string the accessor
  returns a value.
\<close>

theorem overtime_on_strings:
  assumes "g_attrs g ''overtime'' = Some s"
  shows "(s \<in> {''ot'', ''Ot'', ''oT'', ''OT''} \<longrightarrow> Game_overtime K g = Inr (PInt 1))
       \<and> (s \<in> {''so'', ''So'', ''sO'', ''SO''} \<longrightarrow> Game_overtime K g = Inr (SHOOTOUT K))
       \<and> (s = [] \<longrightarrow> Game_overtime K g = Inr (PInt 0))
       \<and> ((\<exists>c \<in> set s. is_digit c)
            \<and> length (takeWhile is_digit (dropWhile (\<lambda>c. \<not> is_digit c) s)) \<le> int_max_str_digits \<longrightarrow>
            Game_overtime K g =
              Inr (PInt (int (digits_nat
                (takeWhile is_digit (dropWhile (\<lambda>c. \<not> is_digit c) s)) 0))))
       \<and> ((\<exists>c \<in> set s. is_digit c)
            \<and> length (takeWhile is_digit (dropWhile (\<lambda>c. \<not> is_digit c) s)) > int_max_str_digits \<longrightarrow>
            Game_overtime K g = Inl exceeds_limit)
       \<and> ((\<forall>c \<in> set s. \<not> is_digit c)
            \<and> s \<notin> {''ot'', ''Ot'', ''oT'', ''OT''} \<and> s \<notin> {''so'', ''So'', ''sO'', ''SO''} \<longrightarrow>
            Game_overtime K g = Inr (PInt 0))
       \<and> ((\<exists>v. Game_overtime K g = Inr v) \<longleftrightarrow>
            \<not> ((\<exists>c \<in> set s. is_digit c)
               \<and> length (takeWhile is_digit (dropWhile (\<lambda>c. \<not> is_digit c) s)) > int_max_str_digits))"
proof -
  let ?run = "takeWhile is_digit (dropWhile (\<lambda>c. \<not> is_digit c) s)"
  have ot: "s \<in> {''ot'', ''Ot'', ''oT'', ''OT''} \<longrightarrow> Game_overtime K g = Inr (PInt 1)"
    using assms unfolding lower_eq_ot [symmetric] by (simp add: Game_overtime_def)
  have so: "s \<in> {''so'', ''So'', ''sO'', ''SO''} \<longrightarrow> Game_overtime K g = Inr (SHOOTOUT K)"
    using assms unfolding lower_eq_so [symmetric]
    by (auto simp: Game_overtime_def lower_eq_ot)
  have empty: "s = [] \<longrightarrow> Game_overtime K g = Inr (PInt 0)"
    using assms by (simp add: Game_overtime_def lower_def)
  have short: "(\<exists>c \<in> set s. is_digit c) \<and> length ?run \<le> int_max_str_digits \<longrightarrow>
      Game_overtime K g = Inr (PInt (int (digits_nat ?run 0)))"
    using Game_overtime_digits [OF assms, of K] by auto
  have long: "(\<exists>c \<in> set s. is_digit c) \<and> length ?run > int_max_str_digits \<longrightarrow>
      Game_overtime K g = Inl exceeds_limit"
    using Game_overtime_digits [OF assms, of K] by auto
  have other: "(\<forall>c \<in> set s. \<not> is_digit c)
      \<and> s \<notin> {''ot'', ''Ot'', ''oT'', ''OT''} \<and> s \<notin> {''so'', ''So'', ''sO'', ''SO''} \<longrightarrow>
      Game_overtime K g = Inr (PInt 0)"
    using Game_overtime_no_digits [OF assms] by (simp only: lower_eq_ot lower_eq_so) simp
  have total: "(\<exists>v. Game_overtime K g = Inr v) \<longleftrightarrow>
      \<not> ((\<exists>c \<in> set s. is_digit c) \<and> length ?run > int_max_str_digits)"
  proof (cases "\<exists>c \<in> set s. is_digit c")
    case True
    show ?thesis
    proof (cases "length ?run > int_max_str_digits")
      case long_run: True
      with long True have "Game_overtime K g = Inl exceeds_limit" by simp
      with True long_run show ?thesis by simp
    next
      case False
      with short True have "Game_overtime K g = Inr (PInt (int (digits_nat ?run 0)))" by simp
      with False show ?thesis by simp
    qed
  next
    case False
    have "\<exists>v. Game_overtime K g = Inr v"
    proof (cases "s \<in> {''ot'', ''Ot'', ''oT'', ''OT''}")
      case True
      with ot show ?thesis by blast
    next
      case not_ot: False
      show ?thesis
      proof (cases "s \<in> {''so'', ''So'', ''sO'', ''SO''}")
        case True
        with so show ?thesis by blast
      next
        case not_so: False
        from other False not_ot not_so show ?thesis by blast
      qed
    qed
    with False show ?thesis by simp
  qed
  show ?thesis
    by (rule conjI [OF ot conjI [OF so conjI [OF empty conjI [OF short conjI [OF long
        conjI [OF other total]]]]]])
qed

theorem overtime_on_strings_witness:
  "Game_overtime example_constants (example_game [(''overtime'', ''Ot'')]) = Inr (PInt 1)
   \<and> Game_overtime example_constants (example_game [(''overtime'', ''SO'')]) = Inr (PStr ''SO'')
   \<and> Game_overtime example_constants (example_game [(''overtime'', [])]) = Inr (PInt 0)
   \<and> Game_overtime example_constants (example_game [(''overtime'', ''2OT'')]) = Inr (PInt 2)
   \<and> Game_overtime example_constants (example_game [(''overtime'', replicate 4301 (CHR ''7''))])
       = Inl exceeds_limit
   \<and> Game_overtime example_constants (example_game [(''overtime'', ''x'')]) = Inr (PInt 0)"
proof -
  have attr: "g_attrs (example_game [(''overtime'', s)]) ''overtime'' = Some s" for s
    by (simp add: example_game_attrs Game_fields_def)
  have seven: "is_digit (CHR ''7'')"
    by (simp add: is_digit_def digit_chars_def)
  have a: "Game_overtime example_constants (example_game [(''overtime'', ''Ot'')]) = Inr (PInt 1)"
    using overtime_on_strings [OF attr, of "''Ot''" example_constants] by simp
  have b: "Game_overtime example_constants (example_game [(''overtime'', ''SO'')]) = Inr (PStr ''SO'')"
    using overtime_on_strings [OF attr, of "''SO''" example_constants]
    by (simp add: example_constants_def)
  have c: "Game_overtime example_constants (example_game [(''overtime'', [])]) = Inr (PInt 0)"
    using overtime_on_strings [OF attr, of "[]" example_constants] by simp
  have d: "Game_overtime example_constants (example_game [(''overtime'', ''2OT'')]) = Inr (PInt 2)"
    using overtime_on_strings [OF attr, of "''2OT''" example_constants]
    by (simp add: is_digit_def digit_chars_def digit_val_def int_max_str_digits_def)
  have e: "Game_overtime example_constants (example_game [(''overtime'', replicate 4301 (CHR ''7''))])
       = Inl exceeds_limit"
    using overtime_on_strings [OF attr, of "replicate 4301 (CHR ''7'')" example_constants] seven
    by (simp add: int_max_str_digits_def)
  have f: "Game_overtime example_constants (example_game [(''overtime'', ''x'')]) = Inr (PInt 0)"
    using overtime_on_strings [OF attr, of "''x''" example_constants]
    by (simp add: is_digit_def digit_chars_def)
  show ?thesis
    by (rule conjI [OF a conjI [OF b conjI [OF c conjI [OF d conjI [OF e f]]]]])
qed

text \<open>
  C3. For a game whose raw result is a string: \<open>W\<close> or \<open>w\<close> gives \<open>WIN\<close>; \<open>L\<close> or
  \<open>l\<close> gives \<open>OVERTIME_LOSS\<close> when the overtime accessor returns a value other than 0
  and \<open>LOSS\<close> when it returns 0.
\<close>

theorem result_derivation:
  assumes "g_attrs g ''result'' = Some r"
  shows "(r = ''W'' \<or> r = ''w'' \<longrightarrow> Game_result K g = Inr (WIN K))
       \<and> (\<forall>v. (r = ''L'' \<or> r = ''l'') \<and> Game_overtime K g = Inr v \<and> v \<noteq> PInt 0 \<longrightarrow>
               Game_result K g = Inr (OVERTIME_LOSS K))
       \<and> ((r = ''L'' \<or> r = ''l'') \<and> Game_overtime K g = Inr (PInt 0) \<longrightarrow>
               Game_result K g = Inr (LOSS K))"
proof -
  have l_not_w: "lower r \<noteq> ''w''" if "r = ''L'' \<or> r = ''l''"
    using that unfolding lower_eq_w by auto
  have is_l: "lower r = ''l''" if "r = ''L'' \<or> r = ''l''"
    using that unfolding lower_eq_l by auto
  have win: "r = ''W'' \<or> r = ''w'' \<longrightarrow> Game_result K g = Inr (WIN K)"
    using assms unfolding Game_result_def by (auto simp: lower_eq_w)
  have otl: "\<forall>v. (r = ''L'' \<or> r = ''l'') \<and> Game_overtime K g = Inr v \<and> v \<noteq> PInt 0 \<longrightarrow>
      Game_result K g = Inr (OVERTIME_LOSS K)"
    using assms l_not_w is_l unfolding Game_result_def by auto
  have loss: "(r = ''L'' \<or> r = ''l'') \<and> Game_overtime K g = Inr (PInt 0) \<longrightarrow>
      Game_result K g = Inr (LOSS K)"
    using assms l_not_w is_l unfolding Game_result_def by auto
  show ?thesis
    by (rule conjI [OF win conjI [OF otl loss]])
qed

theorem result_derivation_witness:
  "Game_result example_constants (example_game [(''result'', ''W'')]) = Inr (PStr ''Win'')
   \<and> Game_result example_constants (example_game [(''result'', ''L''), (''overtime'', ''OT'')])
       = Inr (PStr ''OTL'')
   \<and> Game_result example_constants (example_game [(''result'', ''L''), (''overtime'', [])])
       = Inr (PStr ''Loss'')"
proof -
  have a: "Game_result example_constants (example_game [(''result'', ''W'')]) = Inr (PStr ''Win'')"
    using result_derivation [of "example_game [(''result'', ''W'')]" "''W''" example_constants]
    by (simp add: example_game_attrs Game_fields_def example_constants_def)
  have ot: "Game_overtime example_constants
      (example_game [(''result'', ''L''), (''overtime'', ''OT'')]) = Inr (PInt 1)"
    by (simp add: Game_overtime_def example_game_attrs Game_fields_def case_defs)
  have b: "Game_result example_constants (example_game [(''result'', ''L''), (''overtime'', ''OT'')])
      = Inr (PStr ''OTL'')"
    using result_derivation [of "example_game [(''result'', ''L''), (''overtime'', ''OT'')]"
        "''L''" example_constants] ot
    by (simp add: example_game_attrs Game_fields_def example_constants_def)
  have reg: "Game_overtime example_constants
      (example_game [(''result'', ''L''), (''overtime'', [])]) = Inr (PInt 0)"
    by (simp add: Game_overtime_def example_game_attrs Game_fields_def case_defs)
  have c: "Game_result example_constants (example_game [(''result'', ''L''), (''overtime'', [])])
      = Inr (PStr ''Loss'')"
    using result_derivation [of "example_game [(''result'', ''L''), (''overtime'', [])]"
        "''L''" example_constants] reg
    by (simp add: example_game_attrs Game_fields_def example_constants_def)
  show ?thesis
    by (rule conjI [OF a conjI [OF b c]])
qed

section \<open>Lookups\<close>

lemma Teams_getitem_absent:
  "\<forall>t \<in> set teams. \<exists>a. Team_abbreviation t = Some a \<and> upper a \<noteq> upper q \<Longrightarrow>
     Teams_getitem teams q = Inl (ValueError (''Team abbreviation '' @ q @ '' not found''))"
  by (induction teams) (auto simp del: append.simps)

lemma Teams_getitem_present:
  "\<forall>t \<in> set teams. Team_abbreviation t \<noteq> None \<Longrightarrow>
   \<exists>t \<in> set teams. \<exists>a. Team_abbreviation t = Some a \<and> upper a = upper q \<Longrightarrow>
     \<exists>t \<in> set teams. \<exists>a. Teams_getitem teams q = Inr t
        \<and> Team_abbreviation t = Some a \<and> upper a = upper q"
proof (induction teams)
  case Nil
  then show ?case by simp
next
  case (Cons u teams)
  from Cons.prems(1) obtain b where b: "Team_abbreviation u = Some b" by auto
  show ?case
  proof (cases "upper b = upper q")
    case True
    with b show ?thesis by simp
  next
    case False
    with b Cons.prems have "\<forall>t \<in> set teams. Team_abbreviation t \<noteq> None"
      and "\<exists>t \<in> set teams. \<exists>a. Team_abbreviation t = Some a \<and> upper a = upper q"
      by auto
    from Cons.IH [OF this] False b show ?thesis by simp
  qed
qed

lemma Schedule_call_absent:
  "\<forall>g \<in> set games. \<exists>dt. Game_datetime strptime g = Inr dt
       \<and> \<not> (dt_year dt = dt_year date \<and> dt_month dt = dt_month date \<and> dt_day dt = dt_day date) \<Longrightarrow>
     Schedule_call strptime games date = Inl (ValueError ''No games found for requested date'')"
  by (induction games) auto

lemma Schedule_call_present:
  "\<forall>g \<in> set games. \<exists>dt. Game_datetime strptime g = Inr dt \<Longrightarrow>
   \<exists>g \<in> set games. \<exists>dt. Game_datetime strptime g = Inr dt
       \<and> dt_year dt = dt_year date \<and> dt_month dt = dt_month date \<and> dt_day dt = dt_day date \<Longrightarrow>
     \<exists>g \<in> set games. \<exists>dt. Schedule_call strptime games date = Inr g
       \<and> Game_datetime strptime g = Inr dt
       \<and> dt_year dt = dt_year date \<and> dt_month dt = dt_month date \<and> dt_day dt = dt_day date"
proof (induction games)
  case Nil
  then show ?case by simp
next
  case (Cons h games)
  from Cons.prems(1) obtain d where d: "Game_datetime strptime h = Inr d" by auto
  show ?case
  proof (cases "dt_year d = dt_year date \<and> dt_month d = dt_month date \<and> dt_day d = dt_day date")
    case True
    with d show ?thesis by simp
  next
    case False
    with d Cons.prems have "\<forall>g \<in> set games. \<exists>dt. Game_datetime strptime g = Inr dt"
      and "\<exists>g \<in> set games. \<exists>dt. Game_datetime strptime g = Inr dt
         \<and> dt_year dt = dt_year date \<and> dt_month dt = dt_month date \<and> dt_day dt = dt_day date"
      by auto
    from Cons.IH [OF this] False d show ?thesis by auto
  qed
qed

lemma Teams_getitem_prefix:
  "\<forall>u \<in> set pre. \<exists>a. Team_abbreviation u = Some a \<and> upper a \<noteq> upper q \<Longrightarrow>
     Teams_getitem (pre @ rest) q = Teams_getitem rest q"
  by (induction pre) auto

lemma Schedule_call_prefix:
  "\<forall>h \<in> set pre. \<exists>dt. Game_datetime strptime h = Inr dt
       \<and> \<not> (dt_year dt = dt_year date \<and> dt_month dt = dt_month date \<and> dt_day dt = dt_day date) \<Longrightarrow>
     Schedule_call strptime (pre @ rest) date = Schedule_call strptime rest date"
  by (induction pre) auto

lemma example_team_abbreviation:
  "Team_abbreviation (example_team row) = map_of row ''abbreviation''"
  by (simp add: Team_abbreviation_def example_team_def Team_init_def parse_team_data_def
      Team_fields_def example_parse_field_def)

lemma example_schedule_datetime:
  "Game_datetime example_strptime (example_game [(''date'', ''2017-10-05''), (''time'', ''7:00 PM'')])
     = Inr \<lparr>dt_year = 2017, dt_month = 10, dt_day = 5, dt_hour = 19, dt_minute = 0\<rparr>"
  "Game_datetime example_strptime (example_game [(''date'', ''2017-10-07''), (''time'', ''1:00 PM'')])
     = Inr \<lparr>dt_year = 2017, dt_month = 10, dt_day = 7, dt_hour = 13, dt_minute = 0\<rparr>"
  by (simp_all add: Game_datetime_def example_game_attrs Game_fields_def py_str_def
      example_strptime_def)

lemma example_game_without_time:
  "Game_datetime example_strptime (example_game [(''date'', ''2017-10-05'')])
     = Inl (ValueError ''time data does not match format'')"
  by (simp add: Game_datetime_def example_game_attrs Game_fields_def py_str_def
      example_strptime_def)

text \<open>
  C4 as stated fails: a team without an abbreviation makes the team lookup raise
  \<open>AttributeError\<close>, for a key that a later team has and for a key that no team has;
  a game without a time makes the schedule lookup raise the error of \<open>strptime\<close> for a
  date that a later game has.
\<close>

theorem lookup_raises_other_error_on_malformed_record:
  "Teams_getitem [example_team [], example_team [(''abbreviation'', ''BOS'')]] ''BOS''
     = Inl AttributeError
   \<and> Teams_getitem [example_team []] ''BOS'' = Inl AttributeError
   \<and> Schedule_call example_strptime
       [example_game [(''date'', ''2017-10-05'')],
        example_game [(''date'', ''2017-10-07''), (''time'', ''1:00 PM'')]]
       \<lparr>dt_year = 2017, dt_month = 10, dt_day = 7, dt_hour = 0, dt_minute = 0\<rparr>
     = Inl (ValueError ''time data does not match format'')"
  by (simp add: example_team_abbreviation example_game_without_time)

text \<open>
  C4, amended. Each lookup goes through the records in order. It returns the first record
  whose key matches when every record before it has a well-formed key (an abbreviation
  that is a string, a date and time that \<open>strptime\<close> parses) that does not match, and it
  raises its not-found \<open>ValueError\<close> when every record has a well-formed key and none
  matches; so over a collection of well-formed records an absent key raises the not-found
  error and a present key returns a record with that key. A record without an
  abbreviation, or whose date and time do not parse, that is met before a match makes the
  lookup raise \<open>AttributeError\<close>, or the error of \<open>strptime\<close>, instead.
\<close>

theorem lookup_returns_first_match_or_raises:
  "((\<forall>t \<in> set teams. \<exists>a. Team_abbreviation t = Some a \<and> upper a \<noteq> upper q) \<longrightarrow>
      Teams_getitem teams q = Inl (ValueError (''Team abbreviation '' @ q @ '' not found'')))
   \<and> ((\<forall>u \<in> set pre. \<exists>a. Team_abbreviation u = Some a \<and> upper a \<noteq> upper q)
        \<and> (\<exists>a. Team_abbreviation t = Some a \<and> upper a = upper q) \<longrightarrow>
      Teams_getitem (pre @ t # post) q = Inr t)
   \<and> ((\<forall>u \<in> set pre. \<exists>a. Team_abbreviation u = Some a \<and> upper a \<noteq> upper q)
        \<and> Team_abbreviation t = None \<longrightarrow>
      Teams_getitem (pre @ t # post) q = Inl AttributeError)
   \<and> ((\<forall>t \<in> set teams. Team_abbreviation t \<noteq> None)
        \<and> (\<exists>t \<in> set teams. \<exists>a. Team_abbreviation t = Some a \<and> upper a = upper q) \<longrightarrow>
      (\<exists>t \<in> set teams. \<exists>a. Teams_getitem teams q = Inr t
         \<and> Team_abbreviation t = Some a \<and> upper a = upper q))
   \<and> ((\<forall>g \<in> set games. \<exists>dt. Game_datetime strptime g = Inr dt
          \<and> \<not> (dt_year dt = dt_year date \<and> dt_month dt = dt_month date \<and> dt_day dt = dt_day date)) \<longrightarrow>
      Schedule_call strptime games date = Inl (ValueError ''No games found for requested date''))
   \<and> ((\<forall>h \<in> set gpre. \<exists>dt. Game_datetime strptime h = Inr dt
          \<and> \<not> (dt_year dt = dt_year date \<and> dt_month dt = dt_month date \<and> dt_day dt = dt_day date))
        \<and> (\<exists>dt. Game_datetime strptime g = Inr dt
          \<and> dt_year dt = dt_year date \<and> dt_month dt = dt_month date \<and> dt_day dt = dt_day date) \<longrightarrow>
      Schedule_call strptime (gpre @ g # gpost) date = Inr g)
   \<and> ((\<forall>h \<in> set gpre. \<exists>dt. Game_datetime strptime h = Inr dt
          \<and> \<not> (dt_year dt = dt_year date \<and> dt_month dt = dt_month date \<and> dt_day dt = dt_day date))
        \<and> Game_datetime strptime g = Inl e \<longrightarrow>
      Schedule_call strptime (gpre @ g # gpost) date = Inl e)
   \<and> ((\<forall>g \<in> set games. \<exists>dt. Game_datetime strptime g = Inr dt)
        \<and> (\<exists>g \<in> set games. \<exists>dt. Game_datetime strptime g = Inr dt
          \<and> dt_year dt = dt_year date \<and> dt_month dt = dt_month date \<and> dt_day dt = dt_day date) \<longrightarrow>
      (\<exists>g \<in> set games. \<exists>dt. Schedule_call strptime games date = Inr g
         \<and> Game_datetime strptime g = Inr dt
         \<and> dt_year dt = dt_year date \<and> dt_month dt = dt_month date \<and> dt_day dt = dt_day date))"
proof -
  have t_absent: "(\<forall>t \<in> set teams. \<exists>a. Team_abbreviation t = Some a \<and> upper a \<noteq> upper q) \<longrightarrow>
      Teams_getitem teams q = Inl (ValueError (''Team abbreviation '' @ q @ '' not found''))"
    using Teams_getitem_absent by (rule impI)
  have t_first: "(\<forall>u \<in> set pre. \<exists>a. Team_abbreviation u = Some a \<and> upper a \<noteq> upper q)
        \<and> (\<exists>a. Team_abbreviation t = Some a \<and> upper a = upper q) \<longrightarrow>
      Teams_getitem (pre @ t # post) q = Inr t"
    by (auto simp: Teams_getitem_prefix simp del: Teams_getitem.simps(1))
  have t_none: "(\<forall>u \<in> set pre. \<exists>a. Team_abbreviation u = Some a \<and> upper a \<noteq> upper q)
        \<and> Team_abbreviation t = None \<longrightarrow>
      Teams_getitem (pre @ t # post) q = Inl AttributeError"
    by (auto simp: Teams_getitem_prefix simp del: Teams_getitem.simps(1))
  have t_present: "(\<forall>t \<in> set teams. Team_abbreviation t \<noteq> None)
        \<and> (\<exists>t \<in> set teams. \<exists>a. Team_abbreviation t = Some a \<and> upper a = upper q) \<longrightarrow>
      (\<exists>t \<in> set teams. \<exists>a. Teams_getitem teams q = Inr t
         \<and> Team_abbreviation t = Some a \<and> upper a = upper q)"
    using Teams_getitem_present by blast
  have g_absent: "(\<forall>g \<in> set games. \<exists>dt. Game_datetime strptime g = Inr dt
          \<and> \<not> (dt_year dt = dt_year date \<and> dt_month dt = dt_month date \<and> dt_day dt = dt_day date)) \<longrightarrow>
      Schedule_call strptime games date = Inl (ValueError ''No games found for requested date'')"
    using Schedule_call_absent by (rule impI)
  have g_first: "(\<forall>h \<in> set gpre. \<exists>dt. Game_datetime strptime h = Inr dt
          \<and> \<not> (dt_year dt = dt_year date \<and> dt_month dt = dt_month date \<and> dt_day dt = dt_day date))
        \<and> (\<exists>dt. Game_datetime strptime g = Inr dt
          \<and> dt_year dt = dt_year date \<and> dt_month dt = dt_month date \<and> dt_day dt = dt_day date) \<longrightarrow>
      Schedule_call strptime (gpre @ g # gpost) date = Inr g"
    by (auto simp: Schedule_call_prefix simp del: Schedule_call.simps(1))
  have g_error: "(\<forall>h \<in> set gpre. \<exists>dt. Game_datetime strptime h = Inr dt
          \<and> \<not> (dt_year dt = dt_year date \<and> dt_month dt = dt_month date \<and> dt_day dt = dt_day date))
        \<and> Game_datetime strptime g = Inl e \<longrightarrow>
      Schedule_call strptime (gpre @ g # gpost) date = Inl e"
    by (auto simp: Schedule_call_prefix simp del: Schedule_call.simps(1))
  have g_present: "(\<forall>g \<in> set games. \<exists>dt. Game_datetime strptime g = Inr dt)
        \<and> (\<exists>g \<in> set games. \<exists>dt. Game_datetime strptime g = Inr dt
          \<and> dt_year dt = dt_year date \<and> dt_month dt = dt_month date \<and> dt_day dt = dt_day date) \<longrightarrow>
      (\<exists>g \<in> set games. \<exists>dt. Schedule_call strptime games date = Inr g
         \<and> Game_datetime strptime g = Inr dt
         \<and> dt_year dt = dt_year date \<and> dt_month dt = dt_month date \<and> dt_day dt = dt_day date)"
    using Schedule_call_present [of games strptime date] by blast
  show ?thesis
    by (rule conjI [OF t_absent conjI [OF t_first conjI [OF t_none conjI [OF t_present
        conjI [OF g_absent conjI [OF g_first conjI [OF g_error g_present]]]]]]])
qed

theorem lookup_returns_first_match_or_raises_witness:
  "Teams_getitem [example_team [(''abbreviation'', ''GSW'')], example_team [(''abbreviation'', ''BOS'')]]
      ''NYK'' = Inl (ValueError ''Team abbreviation NYK not found'')
   \<and> Teams_getitem [example_team [(''abbreviation'', ''GSW'')], example_team [(''abbreviation'', ''BOS'')],
        example_team []]
      ''bos'' = Inr (example_team [(''abbreviation'', ''BOS'')])
   \<and> Teams_getitem [example_team [(''abbreviation'', ''GSW'')], example_team [],
        example_team [(''abbreviation'', ''BOS'')]]
      ''bos'' = Inl AttributeError
   \<and> Schedule_call example_strptime example_schedule
        \<lparr>dt_year = 2017, dt_month = 10, dt_day = 8, dt_hour = 0, dt_minute = 0\<rparr>
       = Inl (ValueError ''No games found for requested date'')
   \<and> Schedule_call example_strptime example_schedule
        \<lparr>dt_year = 2017, dt_month = 10, dt_day = 7, dt_hour = 0, dt_minute = 0\<rparr>
       = Inr (example_game [(''date'', ''2017-10-07''), (''time'', ''1:00 PM'')])
   \<and> Schedule_call example_strptime
        [example_game [(''date'', ''2017-10-05''), (''time'', ''7:00 PM'')],
         example_game [(''date'', ''2017-10-05'')],
         example_game [(''date'', ''2017-10-07''), (''time'', ''1:00 PM'')]]
        \<lparr>dt_year = 2017, dt_month = 10, dt_day = 7, dt_hour = 0, dt_minute = 0\<rparr>
       = Inl (ValueError ''time data does not match format'')"
proof -
  let ?gsw = "example_team [(''abbreviation'', ''GSW'')]"
  let ?bos = "example_team [(''abbreviation'', ''BOS'')]"
  let ?g5 = "example_game [(''date'', ''2017-10-05''), (''time'', ''7:00 PM'')]"
  let ?g7 = "example_game [(''date'', ''2017-10-07''), (''time'', ''1:00 PM'')]"
  let ?bad = "example_game [(''date'', ''2017-10-05'')]"
  let ?d7 = "\<lparr>dt_year = 2017, dt_month = 10, dt_day = 7, dt_hour = 0, dt_minute = 0\<rparr>"
  let ?d8 = "\<lparr>dt_year = 2017, dt_month = 10, dt_day = 8, dt_hour = 0, dt_minute = 0\<rparr>"
  have a: "Teams_getitem [?gsw, ?bos] ''NYK'' = Inl (ValueError ''Team abbreviation NYK not found'')"
    using lookup_returns_first_match_or_raises [where teams = "[?gsw, ?bos]" and q = "''NYK''",
        THEN conjunct1]
    by (simp add: example_team_abbreviation case_defs)
  have b: "Teams_getitem [?gsw, ?bos, example_team []] ''bos'' = Inr ?bos"
    using lookup_returns_first_match_or_raises [where pre = "[?gsw]" and t = ?bos
        and post = "[example_team []]" and q = "''bos''", THEN conjunct2, THEN conjunct1]
    by (simp add: example_team_abbreviation case_defs)
  have c: "Teams_getitem [?gsw, example_team [], ?bos] ''bos'' = Inl AttributeError"
    using lookup_returns_first_match_or_raises [where pre = "[?gsw]" and t = "example_team []"
        and post = "[?bos]" and q = "''bos''", THEN conjunct2, THEN conjunct2, THEN conjunct1]
    by (simp add: example_team_abbreviation case_defs)
  have d: "Schedule_call example_strptime example_schedule ?d8
       = Inl (ValueError ''No games found for requested date'')"
    using lookup_returns_first_match_or_raises [where games = example_schedule
        and strptime = example_strptime and date = ?d8,
        THEN conjunct2, THEN conjunct2, THEN conjunct2, THEN conjunct2, THEN conjunct1]
    by (simp add: example_schedule_def example_schedule_datetime)
  have e: "Schedule_call example_strptime example_schedule ?d7 = Inr ?g7"
    using lookup_returns_first_match_or_raises [where gpre = "[?g5]" and g = ?g7
        and gpost = "[]" and strptime = example_strptime and date = ?d7,
        THEN conjunct2, THEN conjunct2, THEN conjunct2, THEN conjunct2, THEN conjunct2,
        THEN conjunct1]
    by (simp add: example_schedule_def example_schedule_datetime)
  have f: "Schedule_call example_strptime [?g5, ?bad, ?g7] ?d7
       = Inl (ValueError ''time data does not match format'')"
    using lookup_returns_first_match_or_raises [where gpre = "[?g5]" and g = ?bad
        and gpost = "[?g7]" and strptime = example_strptime and date = ?d7
        and e = "ValueError ''time data does not match format''",
        THEN conjunct2, THEN conjunct2, THEN conjunct2, THEN conjunct2, THEN conjunct2,
        THEN conjunct2, THEN conjunct1]
    by (simp add: example_schedule_datetime example_game_without_time)
  show ?thesis
    by (rule conjI [OF a conjI [OF b conjI [OF c conjI [OF d conjI [OF e f]]]]])
qed

section \<open>Case and time of day\<close>




text \<open>
  C9. The schedule lookup depends on the year, month and day of its argument only: two
  datetimes of the same calendar date give the same result.
\<close>

theorem schedule_lookup_ignores_time_of_day:
  assumes "dt_year d1 = dt_year d2" and "dt_month d1 = dt_month d2" and "dt_day d1 = dt_day d2"
  shows "Schedule_call strptime games d1 = Schedule_call strptime games d2"
  using assms by (induction games) (auto split: sum.splits)

theorem schedule_lookup_ignores_time_of_day_witness:
  "Schedule_call example_strptime example_schedule
      \<lparr>dt_year = 2017, dt_month = 10, dt_day = 7, dt_hour = 13, dt_minute = 0\<rparr>
     = Schedule_call example_strptime example_schedule
         \<lparr>dt_year = 2017, dt_month = 10, dt_day = 7, dt_hour = 23, dt_minute = 30\<rparr>
   \<and> Schedule_call example_strptime example_schedule
         \<lparr>dt_year = 2017, dt_month = 10, dt_day = 7, dt_hour = 23, dt_minute = 30\<rparr>
       = Inr (example_game [(''date'', ''2017-10-07''), (''time'', ''1:00 PM'')])"
proof -
  have same: "Schedule_call example_strptime example_schedule
      \<lparr>dt_year = 2017, dt_month = 10, dt_day = 7, dt_hour = 13, dt_minute = 0\<rparr>
     = Schedule_call example_strptime example_schedule
         \<lparr>dt_year = 2017, dt_month = 10, dt_day = 7, dt_hour = 23, dt_minute = 30\<rparr>"
    by (rule schedule_lookup_ignores_time_of_day) simp_all
  have "Schedule_call example_strptime example_schedule
      \<lparr>dt_year = 2017, dt_month = 10, dt_day = 7, dt_hour = 13, dt_minute = 0\<rparr>
       = Inr (example_game [(''date'', ''2017-10-07''), (''time'', ''1:00 PM'')])"
    by (simp add: example_schedule_def example_schedule_datetime)
  with same show ?thesis by simp
qed

section \<open>Coercions\<close>

lemmas Team_int_accessor_defs =
  Team_games_played_def Team_minutes_played_def Team_field_goals_def
  Team_field_goal_attempts_def Team_three_point_field_goals_def
  Team_three_point_field_goal_attempts_def Team_two_point_field_goals_def
  Team_two_point_field_goal_attempts_def Team_free_throws_def Team_free_throw_attempts_def
  Team_offensive_rebounds_def Team_defensive_rebounds_def Team_total_rebounds_def
  Team_assists_def Team_steals_def Team_blocks_def Team_turnovers_def Team_personal_fouls_def
  Team_points_def Team_opp_field_goals_def Team_opp_field_goal_attempts_def
  Team_opp_three_point_field_goals_def Team_opp_three_point_field_goal_attempts_def
  Team_opp_two_point_field_goals_def Team_opp_two_point_field_goal_attempts_def
  Team_opp_free_throws_def Team_opp_free_throw_attempts_def Team_opp_offensive_rebounds_def
  Team_opp_defensive_rebounds_def Team_opp_total_rebounds_def Team_opp_assists_def
  Team_opp_steals_def Team_opp_blocks_def Team_opp_turnovers_def Team_opp_personal_fouls_def
  Team_opp_points_def

lemmas Team_float_accessor_defs =
  Team_field_goal_percentage_def Team_three_point_field_goal_percentage_def
  Team_two_point_field_goal_percentage_def Team_free_throw_percentage_def
  Team_opp_field_goal_percentage_def Team_opp_three_point_field_goal_percentage_def
  Team_opp_two_point_field_goal_percentage_def Team_opp_free_throw_percentage_def

lemmas Game_int_accessor_defs =
  Game_game_def Game_goals_scored_def Game_goals_allowed_def Game_wins_def Game_losses_def
  Game_overtime_losses_def Game_shots_on_goal_def Game_penalties_in_minutes_def
  Game_power_play_goals_def Game_power_play_opportunities_def Game_short_handed_goals_def

lemmas Game_str_accessor_defs =
  Game_date_def Game_time_def Game_opponent_name_def Game_streak_def Game_length_of_game_def

lemma Game_init_attrs:
  "g_attrs (Game_init pf pa pb row) f = parse_game_data pf pa pb row f"
  by (simp add: Game_init_def)

lemma py_int_failures:
  "py_int None = Inl TypeError"
  "py_int (Some []) = Inl (invalid_literal [])"
  "int_of_str s = Inl e \<Longrightarrow> py_int (Some s) = Inl e"
  by (simp_all add: py_int_def int_of_str_def strip_def)

lemma example_team_attrs:
  "t_attrs (example_team row) f = (if f \<in> set Team_fields then map_of row f else None)"
  by (simp add: example_team_def Team_init_attrs example_parse_field_def)

text \<open>
  C5 as stated fails: the accessor has no range check, and a cell whose text is \<open>2.5\<close>
  is returned as \<open>5 / 2\<close>, which is above 1.
\<close>

theorem percentage_outside_unit_interval:
  "Team_field_goal_percentage decimal_float (example_team [(''field_goal_percentage'', ''2.5'')])
     = Inr (5 / 2)
   \<and> \<not> (5 / 2 \<le> (1 :: real))"
  by (simp add: Team_field_goal_percentage_def example_team_attrs Team_fields_def py_float_def
      decimal_float_def decimal_unsigned_def strip_def is_space_def is_digit_def digit_val_def
      digit_chars_def)

text \<open>
  C5, amended. Each percentage accessor of a constructed \<open>Team\<close> returns \<open>float\<close> of
  the raw cell and nothing else: \<open>None\<close> raises \<open>TypeError\<close>, a text is converted by
  the builtin and the result is returned as it is, so the value lies in the interval from
  0 to 1 whenever the number in the cell does.
\<close>

theorem percentage_accessor_is_float_of_cell:
  "\<forall>(acc, f) \<in> set
         [(Team_field_goal_percentage, ''field_goal_percentage''),
           (Team_three_point_field_goal_percentage, ''three_point_field_goal_percentage''),
           (Team_two_point_field_goal_percentage, ''two_point_field_goal_percentage''),
           (Team_free_throw_percentage, ''free_throw_percentage''),
           (Team_opp_field_goal_percentage, ''opp_field_goal_percentage''),
           (Team_opp_three_point_field_goal_percentage, ''opp_three_point_field_goal_percentage''),
           (Team_opp_two_point_field_goal_percentage, ''opp_two_point_field_goal_percentage''),
           (Team_opp_free_throw_percentage, ''opp_free_throw_percentage'')].
     (pf row f = None \<longrightarrow> acc conv (Team_init pf row r y) = Inl TypeError)
     \<and> (\<forall>s. pf row f = Some s \<longrightarrow> acc conv (Team_init pf row r y) = conv s)
     \<and> (\<forall>s x. pf row f = Some s \<and> conv s = Inr x \<and> 0 \<le> x \<and> x \<le> 1 \<longrightarrow>
           (\<exists>v. acc conv (Team_init pf row r y) = Inr v \<and> 0 \<le> v \<and> v \<le> 1))"
  by (auto simp: Team_float_accessor_defs Team_init_attrs Team_fields_def py_float_def)

theorem percentage_accessor_is_float_of_cell_witness:
  "Team_field_goal_percentage decimal_float
     (Team_init example_parse_field [(''field_goal_percentage'', ''.5'')] 1 ''2018'')
     = Inr (1 / 2)
   \<and> Team_opp_field_goal_percentage decimal_float
     (Team_init example_parse_field [(''field_goal_percentage'', ''.5'')] 1 ''2018'')
     = Inl TypeError"
proof -
  have conv: "decimal_float ''.5'' = Inr (1 / 2)"
    by (simp add: decimal_float_def decimal_unsigned_def strip_def is_space_def is_digit_def
        digit_val_def digit_chars_def)
  show ?thesis
    using percentage_accessor_is_float_of_cell [of example_parse_field
        "[(''field_goal_percentage'', ''.5'')]" decimal_float 1 "''2018''"] conv
    by (simp add: example_parse_field_def)
qed

text \<open>
  C6 as stated fails for the overtime accessor: by its guards an empty text, and a text
  that is neither \<open>ot\<close>, \<open>so\<close> nor contains a digit, give 0 and raise nothing. In the
  same way a result text that is neither \<open>w\<close> nor \<open>l\<close> gives \<open>LOSS\<close>, and a missing
  location gives \<open>HOME\<close>.
\<close>

theorem overtime_returns_default_for_malformed_text:
  "Game_overtime example_constants (example_game [(''overtime'', [])]) = Inr (PInt 0)
   \<and> Game_overtime example_constants (example_game [(''overtime'', ''abc'')]) = Inr (PInt 0)
   \<and> Game_result example_constants (example_game [(''result'', ''abc'')]) = Inr (PStr ''Loss'')
   \<and> Game_location example_constants (example_game []) = PStr ''Home''"
  by (simp add: Game_overtime_def Game_result_def Game_location_def example_game_attrs
      Game_fields_def case_defs is_digit_def digit_chars_def example_constants_def)

text \<open>
  C6, amended. For the accessors that pass the raw value to \<open>int\<close> or \<open>float\<close> (all
  integer and percentage accessors of \<open>Team\<close>, the integer accessors of \<open>Game\<close>), the
  failure of the coercion is the result of the accessor: \<open>TypeError\<close> for \<open>None\<close>, the
  \<open>ValueError\<close> of the builtin for a text it rejects, such as the empty string. The
  attendance accessor raises \<open>AttributeError\<close> for \<open>None\<close> and the \<open>ValueError\<close> of
  \<open>int\<close> for the empty string.
\<close>

theorem coercion_failures_propagate_unchanged:
  "(\<forall>(acc, f) \<in> set
         [(Team_games_played, ''games_played''), (Team_minutes_played, ''minutes_played''),
           (Team_field_goals, ''field_goals''),
           (Team_field_goal_attempts, ''field_goal_attempts''),
           (Team_three_point_field_goals, ''three_point_field_goals''),
           (Team_three_point_field_goal_attempts, ''three_point_field_goal_attempts''),
           (Team_two_point_field_goals, ''two_point_field_goals''),
           (Team_two_point_field_goal_attempts, ''two_point_field_goal_attempts''),
           (Team_free_throws, ''free_throws''),
           (Team_free_throw_attempts, ''free_throw_attempts''),
           (Team_offensive_rebounds, ''offensive_rebounds''),
           (Team_defensive_rebounds, ''defensive_rebounds''),
           (Team_total_rebounds, ''total_rebounds''), (Team_assists, ''assists''),
           (Team_steals, ''steals''), (Team_blocks, ''blocks''),
           (Team_turnovers, ''turnovers''), (Team_personal_fouls, ''personal_fouls''),
           (Team_points, ''points''), (Team_opp_field_goals, ''opp_field_goals''),
           (Team_opp_field_goal_attempts, ''opp_field_goal_attempts''),
           (Team_opp_three_point_field_goals, ''opp_three_point_field_goals''),
           (Team_opp_three_point_field_goal_attempts, ''opp_three_point_field_goal_attempts''),
           (Team_opp_two_point_field_goals, ''opp_two_point_field_goals''),
           (Team_opp_two_point_field_goal_attempts, ''opp_two_point_field_goal_attempts''),
           (Team_opp_free_throws, ''opp_free_throws''),
           (Team_opp_free_throw_attempts, ''opp_free_throw_attempts''),
           (Team_opp_offensive_rebounds, ''opp_offensive_rebounds''),
           (Team_opp_defensive_rebounds, ''opp_defensive_rebounds''),
           (Team_opp_total_rebounds, ''opp_total_rebounds''),
           (Team_opp_assists, ''opp_assists''), (Team_opp_steals, ''opp_steals''),
           (Team_opp_blocks, ''opp_blocks''), (Team_opp_turnovers, ''opp_turnovers''),
           (Team_opp_personal_fouls, ''opp_personal_fouls''),
           (Team_opp_points, ''opp_points'')].
      (t_attrs t f = None \<longrightarrow> acc t = Inl TypeError)
      \<and> (t_attrs t f = Some [] \<longrightarrow> acc t = Inl (invalid_literal []))
      \<and> (\<forall>s e. t_attrs t f = Some s \<and> int_of_str s = Inl e \<longrightarrow> acc t = Inl e))
   \<and> (\<forall>(acc, f) \<in> set
         [(Team_field_goal_percentage, ''field_goal_percentage''),
           (Team_three_point_field_goal_percentage, ''three_point_field_goal_percentage''),
           (Team_two_point_field_goal_percentage, ''two_point_field_goal_percentage''),
           (Team_free_throw_percentage, ''free_throw_percentage''),
           (Team_opp_field_goal_percentage, ''opp_field_goal_percentage''),
           (Team_opp_three_point_field_goal_percentage, ''opp_three_point_field_goal_percentage''),
           (Team_opp_two_point_field_goal_percentage, ''opp_two_point_field_goal_percentage''),
           (Team_opp_free_throw_percentage, ''opp_free_throw_percentage'')].
      (t_attrs t f = None \<longrightarrow> acc conv t = Inl TypeError)
      \<and> (\<forall>s e. t_attrs t f = Some s \<and> conv s = Inl e \<longrightarrow> acc conv t = Inl e))
   \<and> (\<forall>(acc, f) \<in> set
         [(Game_game, ''game''), (Game_goals_scored, ''goals_scored''),
           (Game_goals_allowed, ''goals_allowed''), (Game_wins, ''wins''),
           (Game_losses, ''losses''), (Game_overtime_losses, ''overtime_losses''),
           (Game_shots_on_goal, ''shots_on_goal''),
           (Game_penalties_in_minutes, ''penalties_in_minutes''),
           (Game_power_play_goals, ''power_play_goals''),
           (Game_power_play_opportunities, ''power_play_opportunities''),
           (Game_short_handed_goals, ''short_handed_goals'')].
      (g_attrs g f = None \<longrightarrow> acc g = Inl TypeError)
      \<and> (g_attrs g f = Some [] \<longrightarrow> acc g = Inl (invalid_literal []))
      \<and> (\<forall>s e. g_attrs g f = Some s \<and> int_of_str s = Inl e \<longrightarrow> acc g = Inl e))
   \<and> (g_attrs g ''attendance'' = None \<longrightarrow> Game_attendance g = Inl AttributeError)
   \<and> (g_attrs g ''attendance'' = Some [] \<longrightarrow> Game_attendance g = Inl (invalid_literal []))"
proof -
  have team_int: "\<forall>(acc, f) \<in> set
         [(Team_games_played, ''games_played''), (Team_minutes_played, ''minutes_played''),
           (Team_field_goals, ''field_goals''),
           (Team_field_goal_attempts, ''field_goal_attempts''),
           (Team_three_point_field_goals, ''three_point_field_goals''),
           (Team_three_point_field_goal_attempts, ''three_point_field_goal_attempts''),
           (Team_two_point_field_goals, ''two_point_field_goals''),
           (Team_two_point_field_goal_attempts, ''two_point_field_goal_attempts''),
           (Team_free_throws, ''free_throws''),
           (Team_free_throw_attempts, ''free_throw_attempts''),
           (Team_offensive_rebounds, ''offensive_rebounds''),
           (Team_defensive_rebounds, ''defensive_rebounds''),
           (Team_total_rebounds, ''total_rebounds''), (Team_assists, ''assists''),
           (Team_steals, ''steals''), (Team_blocks, ''blocks''),
           (Team_turnovers, ''turnovers''), (Team_personal_fouls, ''personal_fouls''),
           (Team_points, ''points''), (Team_opp_field_goals, ''opp_field_goals''),
           (Team_opp_field_goal_attempts, ''opp_field_goal_attempts''),
           (Team_opp_three_point_field_goals, ''opp_three_point_field_goals''),
           (Team_opp_three_point_field_goal_attempts, ''opp_three_point_field_goal_attempts''),
           (Team_opp_two_point_field_goals, ''opp_two_point_field_goals''),
           (Team_opp_two_point_field_goal_attempts, ''opp_two_point_field_goal_attempts''),
           (Team_opp_free_throws, ''opp_free_throws''),
           (Team_opp_free_throw_attempts, ''opp_free_throw_attempts''),
           (Team_opp_offensive_rebounds, ''opp_offensive_rebounds''),
           (Team_opp_defensive_rebounds, ''opp_defensive_rebounds''),
           (Team_opp_total_rebounds, ''opp_total_rebounds''),
           (Team_opp_assists, ''opp_assists''), (Team_opp_steals, ''opp_steals''),
           (Team_opp_blocks, ''opp_blocks''), (Team_opp_turnovers, ''opp_turnovers''),
           (Team_opp_personal_fouls, ''opp_personal_fouls''),
           (Team_opp_points, ''opp_points'')].
      (t_attrs t f = None \<longrightarrow> acc t = Inl TypeError)
      \<and> (t_attrs t f = Some [] \<longrightarrow> acc t = Inl (invalid_literal []))
      \<and> (\<forall>s e. t_attrs t f = Some s \<and> int_of_str s = Inl e \<longrightarrow> acc t = Inl e)"
    by (simp add: Team_int_accessor_defs py_int_failures)
  have team_float: "\<forall>(acc, f) \<in> set
         [(Team_field_goal_percentage, ''field_goal_percentage''),
           (Team_three_point_field_goal_percentage, ''three_point_field_goal_percentage''),
           (Team_two_point_field_goal_percentage, ''two_point_field_goal_percentage''),
           (Team_free_throw_percentage, ''free_throw_percentage''),
           (Team_opp_field_goal_percentage, ''opp_field_goal_percentage''),
           (Team_opp_three_point_field_goal_percentage, ''opp_three_point_field_goal_percentage''),
           (Team_opp_two_point_field_goal_percentage, ''opp_two_point_field_goal_percentage''),
           (Team_opp_free_throw_percentage, ''opp_free_throw_percentage'')].
      (t_attrs t f = None \<longrightarrow> acc conv t = Inl TypeError)
      \<and> (\<forall>s e. t_attrs t f = Some s \<and> conv s = Inl e \<longrightarrow> acc conv t = Inl e)"
    by (simp add: Team_float_accessor_defs py_float_def)
  have game_int: "\<forall>(acc, f) \<in> set
         [(Game_game, ''game''), (Game_goals_scored, ''goals_scored''),
           (Game_goals_allowed, ''goals_allowed''), (Game_wins, ''wins''),
           (Game_losses, ''losses''), (Game_overtime_losses, ''overtime_losses''),
           (Game_shots_on_goal, ''shots_on_goal''),
           (Game_penalties_in_minutes, ''penalties_in_minutes''),
           (Game_power_play_goals, ''power_play_goals''),
           (Game_power_play_opportunities, ''power_play_opportunities''),
           (Game_short_handed_goals, ''short_handed_goals'')].
      (g_attrs g f = None \<longrightarrow> acc g = Inl TypeError)
      \<and> (g_attrs g f = Some [] \<longrightarrow> acc g = Inl (invalid_literal []))
      \<and> (\<forall>s e. g_attrs g f = Some s \<and> int_of_str s = Inl e \<longrightarrow> acc g = Inl e)"
    by (simp add: Game_int_accessor_defs py_int_failures)
  have att_none: "g_attrs g ''attendance'' = None \<longrightarrow> Game_attendance g = Inl AttributeError"
    by (simp add: Game_attendance_def)
  have att_empty: "g_attrs g ''attendance'' = Some [] \<longrightarrow>
      Game_attendance g = Inl (invalid_literal [])"
    by (simp add: Game_attendance_def replace_comma_def int_of_str_def strip_def)
  show ?thesis
    by (rule conjI [OF team_int conjI [OF team_float conjI [OF game_int
        conjI [OF att_none att_empty]]]])
qed

theorem coercion_failures_propagate_unchanged_witness:
  "Team_points (example_team []) = Inl TypeError
   \<and> Team_points (example_team [(''points'', [])]) = Inl (invalid_literal [])
   \<and> Team_field_goal_percentage decimal_float (example_team []) = Inl TypeError
   \<and> Game_goals_scored (example_game []) = Inl TypeError
   \<and> Game_goals_scored (example_game [(''goals_scored'', [])]) = Inl (invalid_literal [])
   \<and> Game_goals_scored (example_game [(''goals_scored'', ''x'')]) = Inl (invalid_literal ''x'')
   \<and> Game_attendance (example_game []) = Inl AttributeError"
proof -
  have bad: "int_of_str ''x'' = Inl (invalid_literal ''x'')"
    by (simp add: int_of_str_eval)
  have t_none: "t_attrs (example_team []) f = None" for f
    by (simp add: example_team_attrs)
  have t_empty: "t_attrs (example_team [(''points'', [])]) ''points'' = Some []"
    by (simp add: example_team_attrs Team_fields_def)
  have g_none: "g_attrs (example_game []) ''goals_scored'' = None"
    "g_attrs (example_game []) ''attendance'' = None"
    by (simp_all add: example_game_attrs Game_fields_def example_parse_field_def)
  have g_empty: "g_attrs (example_game [(''goals_scored'', [])]) ''goals_scored'' = Some []"
    by (simp add: example_game_attrs Game_fields_def)
  have g_bad: "g_attrs (example_game [(''goals_scored'', ''x'')]) ''goals_scored'' = Some ''x''"
    by (simp add: example_game_attrs Game_fields_def)
  have a: "Team_points (example_team []) = Inl TypeError"
    using coercion_failures_propagate_unchanged [where t = "example_team []",
        THEN conjunct1, THEN bspec [where x = "(Team_points, ''points'')"]]
    by (simp add: t_none)
  have b: "Team_points (example_team [(''points'', [])]) = Inl (invalid_literal [])"
    using coercion_failures_propagate_unchanged [where t = "example_team [(''points'', [])]",
        THEN conjunct1, THEN bspec [where x = "(Team_points, ''points'')"]]
    by (simp add: t_empty)
  have c: "Team_field_goal_percentage decimal_float (example_team []) = Inl TypeError"
    using coercion_failures_propagate_unchanged [where t = "example_team []"
        and conv = decimal_float, THEN conjunct2, THEN conjunct1,
        THEN bspec [where x = "(Team_field_goal_percentage, ''field_goal_percentage'')"]]
    by (simp add: t_none)
  have d: "Game_goals_scored (example_game []) = Inl TypeError"
    using coercion_failures_propagate_unchanged [where g = "example_game []",
        THEN conjunct2, THEN conjunct2, THEN conjunct1,
        THEN bspec [where x = "(Game_goals_scored, ''goals_scored'')"]]
    by (simp add: g_none)
  have e: "Game_goals_scored (example_game [(''goals_scored'', [])]) = Inl (invalid_literal [])"
    using coercion_failures_propagate_unchanged
        [where g = "example_game [(''goals_scored'', [])]",
        THEN conjunct2, THEN conjunct2, THEN conjunct1,
        THEN bspec [where x = "(Game_goals_scored, ''goals_scored'')"]]
    by (simp add: g_empty)
  have f: "Game_goals_scored (example_game [(''goals_scored'', ''x'')]) = Inl (invalid_literal ''x'')"
    using coercion_failures_propagate_unchanged
        [where g = "example_game [(''goals_scored'', ''x'')]",
        THEN conjunct2, THEN conjunct2, THEN conjunct1,
        THEN bspec [where x = "(Game_goals_scored, ''goals_scored'')"]] bad
    by (simp add: g_bad)
  have g: "Game_attendance (example_game []) = Inl AttributeError"
    using coercion_failures_propagate_unchanged [where g = "example_game []",
        THEN conjunct2, THEN conjunct2, THEN conjunct2, THEN conjunct1]
    by (simp add: g_none)
  show ?thesis
    by (rule conjI [OF a conjI [OF b conjI [OF c conjI [OF d conjI [OF e conjI [OF f g]]]]]])
qed

text \<open>
  C7 as stated fails for the attendance accessor: the cell text \<open>18,006\<close> is returned as
  18006, while \<open>int\<close> of that text is a \<open>ValueError\<close>.
\<close>

theorem attendance_is_not_int_of_cell:
  "Game_attendance (example_game [(''attendance'', ''18,006'')]) = Inr 18006
   \<and> py_int (Some ''18,006'') = Inl (invalid_literal ''18,006'')"
  by (simp add: Game_attendance_def example_game_attrs Game_fields_def replace_comma_def
      py_int_def int_of_str_eval)

lemma Game_overtime_cases:
  assumes "g_attrs g ''overtime'' = Some s"
  shows "Game_overtime K g =
       (if s \<in> {''ot'', ''Ot'', ''oT'', ''OT''} then Inr (PInt 1)
        else if s \<in> {''so'', ''So'', ''sO'', ''SO''} then Inr (SHOOTOUT K)
        else if \<forall>c \<in> set s. \<not> is_digit c then Inr (PInt 0)
        else
          (case int_of_str (takeWhile is_digit (dropWhile (\<lambda>c. \<not> is_digit c) s)) of
             Inl e \<Rightarrow> Inl e
           | Inr n \<Rightarrow> Inr (PInt n)))"
proof (cases "\<exists>c \<in> set s. is_digit c")
  case True
  then obtain c where c: "c \<in> set s" "is_digit c" by blast
  have not_ot: "lower s \<noteq> ''ot''"
    using c digit_not_letter [OF c(2)] unfolding lower_eq_ot by auto
  have not_so: "lower s \<noteq> ''so''"
    using c digit_not_letter [OF c(2)] unfolding lower_eq_so by auto
  have not_empty: "s \<noteq> []"
    using c by auto
  have some_digit: "(\<forall>c \<in> set s. \<not> is_digit c) = False"
    using True by blast
  have found: "findall_digits s \<noteq> []"
    "findall_digits s ! 0 = takeWhile is_digit (dropWhile (\<lambda>c. \<not> is_digit c) s)"
    using findall_digits_first [OF True] by simp_all
  have "Game_overtime K g =
      (case int_of_str (takeWhile is_digit (dropWhile (\<lambda>c. \<not> is_digit c) s)) of
         Inl e \<Rightarrow> Inl e
       | Inr n \<Rightarrow> Inr (PInt n))"
    using assms not_ot not_so not_empty found by (simp add: Game_overtime_def)
  then show ?thesis
    unfolding lower_eq_ot [symmetric] lower_eq_so [symmetric]
    by (simp only: not_ot not_so some_digit if_False)
next
  case False
  then have none: "findall_digits s = []"
    by (simp add: findall_digits_none)
  have no_digit: "(\<forall>c \<in> set s. \<not> is_digit c) = True"
    using False by blast
  have "Game_overtime K g =
      (if lower s = ''ot'' then Inr (PInt 1)
       else if lower s = ''so'' then Inr (SHOOTOUT K)
       else Inr (PInt 0))"
    using assms none by (simp add: Game_overtime_def)
  then show ?thesis
    unfolding lower_eq_ot [symmetric] lower_eq_so [symmetric]
    by (simp only: no_digit if_True)
qed

text \<open>
  C7, amended. For a constructed record every accessor returns the documented coercion of
  the raw cell text and nothing else: \<open>int(text)\<close> for the accessors the source writes
  \<open>int(self._x)\<close>, \<open>float(text)\<close> for the percentages, the text itself for the plain
  strings (date, time, opponent name, streak, length of game, abbreviation, name), the
  string extracted from the hyperlink for the opponent abbreviation and the boxscore key,
  \<open>strptime\<close> of date and time for the datetime, the rank given at construction for the
  rank, and the derivations for location (\<open>AWAY\<close> for the text \<open>@\<close>, \<open>HOME\<close> otherwise),
  overtime and result. The one exception is attendance, which deletes every comma from
  the text and then applies \<open>int\<close>: on a text without a comma that is \<open>int(text)\<close>; on a
  text with a comma \<open>int(text)\<close> raises, while the accessor converts what is left.
\<close>

theorem accessors_return_coerced_cell_text:
  "(\<forall>(acc, f) \<in> set
         [(Game_game, ''game''), (Game_goals_scored, ''goals_scored''),
           (Game_goals_allowed, ''goals_allowed''), (Game_wins, ''wins''),
           (Game_losses, ''losses''), (Game_overtime_losses, ''overtime_losses''),
           (Game_shots_on_goal, ''shots_on_goal''),
           (Game_penalties_in_minutes, ''penalties_in_minutes''),
           (Game_power_play_goals, ''power_play_goals''),
           (Game_power_play_opportunities, ''power_play_opportunities''),
           (Game_short_handed_goals, ''short_handed_goals'')].
      acc (Game_init pf pa pb row) = py_int (pf row f))
   \<and> (\<forall>(acc, f) \<in> set
         [(Game_date, ''date''), (Game_time, ''time''),
           (Game_opponent_name, ''opponent_name''), (Game_streak, ''streak''),
           (Game_length_of_game, ''length_of_game'')].
      acc (Game_init pf pa pb row) = pf row f)
   \<and> Game_attendance (Game_init pf pa pb row) =
       (case pf row ''attendance'' of
          None \<Rightarrow> Inl AttributeError
        | Some a \<Rightarrow> int_of_str (filter (\<lambda>c. c \<noteq> CHR '','') a))
   \<and> (\<forall>a. pf row ''attendance'' = Some a \<and> CHR '','' \<notin> set a \<longrightarrow>
         Game_attendance (Game_init pf pa pb row) = py_int (Some a))
   \<and> (\<forall>a. pf row ''attendance'' = Some a \<and> CHR '','' \<in> set a \<longrightarrow>
         (\<exists>e. py_int (Some a) = Inl e))
   \<and> (\<forall>(acc, f) \<in> set
         [(Team_games_played, ''games_played''), (Team_minutes_played, ''minutes_played''),
           (Team_field_goals, ''field_goals''),
           (Team_field_goal_attempts, ''field_goal_attempts''),
           (Team_three_point_field_goals, ''three_point_field_goals''),
           (Team_three_point_field_goal_attempts, ''three_point_field_goal_attempts''),
           (Team_two_point_field_goals, ''two_point_field_goals''),
           (Team_two_point_field_goal_attempts, ''two_point_field_goal_attempts''),
           (Team_free_throws, ''free_throws''),
           (Team_free_throw_attempts, ''free_throw_attempts''),
           (Team_offensive_rebounds, ''offensive_rebounds''),
           (Team_defensive_rebounds, ''defensive_rebounds''),
           (Team_total_rebounds, ''total_rebounds''), (Team_assists, ''assists''),
           (Team_steals, ''steals''), (Team_blocks, ''blocks''),
           (Team_turnovers, ''turnovers''), (Team_personal_fouls, ''personal_fouls''),
           (Team_points, ''points''), (Team_opp_field_goals, ''opp_field_goals''),
           (Team_opp_field_goal_attempts, ''opp_field_goal_attempts''),
           (Team_opp_three_point_field_goals, ''opp_three_point_field_goals''),
           (Team_opp_three_point_field_goal_attempts, ''opp_three_point_field_goal_attempts''),
           (Team_opp_two_point_field_goals, ''opp_two_point_field_goals''),
           (Team_opp_two_point_field_goal_attempts, ''opp_two_point_field_goal_attempts''),
           (Team_opp_free_throws, ''opp_free_throws''),
           (Team_opp_free_throw_attempts, ''opp_free_throw_attempts''),
           (Team_opp_offensive_rebounds, ''opp_offensive_rebounds''),
           (Team_opp_defensive_rebounds, ''opp_defensive_rebounds''),
           (Team_opp_total_rebounds, ''opp_total_rebounds''),
           (Team_opp_assists, ''opp_assists''), (Team_opp_steals, ''opp_steals''),
           (Team_opp_blocks, ''opp_blocks''), (Team_opp_turnovers, ''opp_turnovers''),
           (Team_opp_personal_fouls, ''opp_personal_fouls''),
           (Team_opp_points, ''opp_points'')].
      acc (Team_init tpf trow r y) = py_int (tpf trow f))
   \<and> (\<forall>(acc, f) \<in> set
         [(Team_field_goal_percentage, ''field_goal_percentage''),
           (Team_three_point_field_goal_percentage, ''three_point_field_goal_percentage''),
           (Team_two_point_field_goal_percentage, ''two_point_field_goal_percentage''),
           (Team_free_throw_percentage, ''free_throw_percentage''),
           (Team_opp_field_goal_percentage, ''opp_field_goal_percentage''),
           (Team_opp_three_point_field_goal_percentage, ''opp_three_point_field_goal_percentage''),
           (Team_opp_two_point_field_goal_percentage, ''opp_two_point_field_goal_percentage''),
           (Team_opp_free_throw_percentage, ''opp_free_throw_percentage'')].
      acc conv (Team_init tpf trow r y) = py_float conv (tpf trow f))
   \<and> (\<forall>(acc, f) \<in> set [(Team_abbreviation, ''abbreviation''), (Team_name, ''name'')].
      acc (Team_init tpf trow r y) = tpf trow f)
   \<and> Team_rank (Team_init tpf trow r y) = r
   \<and> Game_opponent_abbr (Game_init pf pa pb row) = Some (pa row)
   \<and> g_attrs (Game_init pf pa pb row) ''boxscore'' = Some (pb row)
   \<and> Game_datetime strptime (Game_init pf pa pb row) =
       strptime (py_str (pf row ''date'') @ '' '' @ py_str (pf row ''time''))
   \<and> Game_location K (Game_init pf pa pb row) =
       (if pf row ''location'' = Some ''@'' then AWAY K else HOME K)
   \<and> Game_overtime K (Game_init pf pa pb row) =
       (case pf row ''overtime'' of
          None \<Rightarrow> Inl AttributeError
        | Some s \<Rightarrow>
            if s \<in> {''ot'', ''Ot'', ''oT'', ''OT''} then Inr (PInt 1)
            else if s \<in> {''so'', ''So'', ''sO'', ''SO''} then Inr (SHOOTOUT K)
            else if \<forall>c \<in> set s. \<not> is_digit c then Inr (PInt 0)
            else
              (case int_of_str (takeWhile is_digit (dropWhile (\<lambda>c. \<not> is_digit c) s)) of
                 Inl e \<Rightarrow> Inl e
               | Inr n \<Rightarrow> Inr (PInt n)))
   \<and> Game_result K (Game_init pf pa pb row) =
       (case pf row ''result'' of
          None \<Rightarrow> Inl AttributeError
        | Some res \<Rightarrow>
            if res \<in> {''w'', ''W''} then Inr (WIN K)
            else if res \<in> {''l'', ''L''} then
              (case Game_overtime K (Game_init pf pa pb row) of
                 Inl e \<Rightarrow> Inl e
               | Inr v \<Rightarrow> if v \<noteq> PInt 0 then Inr (OVERTIME_LOSS K) else Inr (LOSS K))
            else Inr (LOSS K))"
proof -
  have raw: "g_attrs (Game_init pf pa pb row) ''overtime'' = pf row ''overtime''"
    "g_attrs (Game_init pf pa pb row) ''result'' = pf row ''result''"
    by (simp_all add: Game_init_attrs parse_game_data_def Game_fields_def)
  have no_comma: "filter (\<lambda>c. c \<noteq> CHR '','') a = a" if "CHR '','' \<notin> set a" for a
    using that by (induction a) auto
  have game_int: "(\<forall>(acc, f) \<in> set
           [(Game_game, ''game''), (Game_goals_scored, ''goals_scored''),
             (Game_goals_allowed, ''goals_allowed''), (Game_wins, ''wins''),
             (Game_losses, ''losses''), (Game_overtime_losses, ''overtime_losses''),
             (Game_shots_on_goal, ''shots_on_goal''),
             (Game_penalties_in_minutes, ''penalties_in_minutes''),
             (Game_power_play_goals, ''power_play_goals''),
             (Game_power_play_opportunities, ''power_play_opportunities''),
             (Game_short_handed_goals, ''short_handed_goals'')].
        acc (Game_init pf pa pb row) = py_int (pf row f))"
    by (simp add: Game_int_accessor_defs Game_init_attrs parse_game_data_def Game_fields_def)
  have game_str: "(\<forall>(acc, f) \<in> set
           [(Game_date, ''date''), (Game_time, ''time''),
             (Game_opponent_name, ''opponent_name''), (Game_streak, ''streak''),
             (Game_length_of_game, ''length_of_game'')].
        acc (Game_init pf pa pb row) = pf row f)"
    by (simp add: Game_str_accessor_defs Game_init_attrs parse_game_data_def Game_fields_def)
  have att: "Game_attendance (Game_init pf pa pb row) =
         (case pf row ''attendance'' of
            None \<Rightarrow> Inl AttributeError
          | Some a \<Rightarrow> int_of_str (filter (\<lambda>c. c \<noteq> CHR '','') a))"
    by (simp add: Game_attendance_def Game_init_attrs parse_game_data_def Game_fields_def
        replace_comma_def Let_def split: option.splits)
  have att_plain: "(\<forall>a. pf row ''attendance'' = Some a \<and> CHR '','' \<notin> set a \<longrightarrow>
           Game_attendance (Game_init pf pa pb row) = py_int (Some a))"
    unfolding att by (simp add: py_int_def no_comma)
  have att_comma: "(\<forall>a. pf row ''attendance'' = Some a \<and> CHR '','' \<in> set a \<longrightarrow>
           (\<exists>e. py_int (Some a) = Inl e))"
    by (simp add: py_int_def int_of_str_comma)
  have team_int: "(\<forall>(acc, f) \<in> set
           [(Team_games_played, ''games_played''), (Team_minutes_played, ''minutes_played''),
             (Team_field_goals, ''field_goals''),
             (Team_field_goal_attempts, ''field_goal_attempts''),
             (Team_three_point_field_goals, ''three_point_field_goals''),
             (Team_three_point_field_goal_attempts, ''three_point_field_goal_attempts''),
             (Team_two_point_field_goals, ''two_point_field_goals''),
             (Team_two_point_field_goal_attempts, ''two_point_field_goal_attempts''),
             (Team_free_throws, ''free_throws''),
             (Team_free_throw_attempts, ''free_throw_attempts''),
             (Team_offensive_rebounds, ''offensive_rebounds''),
             (Team_defensive_rebounds, ''defensive_rebounds''),
             (Team_total_rebounds, ''total_rebounds''), (Team_assists, ''assists''),
             (Team_steals, ''steals''), (Team_blocks, ''blocks''),
             (Team_turnovers, ''turnovers''), (Team_personal_fouls, ''personal_fouls''),
             (Team_points, ''points''), (Team_opp_field_goals, ''opp_field_goals''),
             (Team_opp_field_goal_attempts, ''opp_field_goal_attempts''),
             (Team_opp_three_point_field_goals, ''opp_three_point_field_goals''),
             (Team_opp_three_point_field_goal_attempts, ''opp_three_point_field_goal_attempts''),
             (Team_opp_two_point_field_goals, ''opp_two_point_field_goals''),
             (Team_opp_two_point_field_goal_attempts, ''opp_two_point_field_goal_attempts''),
             (Team_opp_free_throws, ''opp_free_throws''),
             (Team_opp_free_throw_attempts, ''opp_free_throw_attempts''),
             (Team_opp_offensive_rebounds, ''opp_offensive_rebounds''),
             (Team_opp_defensive_rebounds, ''opp_defensive_rebounds''),
             (Team_opp_total_rebounds, ''opp_total_rebounds''),
             (Team_opp_assists, ''opp_assists''), (Team_opp_steals, ''opp_steals''),
             (Team_opp_blocks, ''opp_blocks''), (Team_opp_turnovers, ''opp_turnovers''),
             (Team_opp_personal_fouls, ''opp_personal_fouls''),
             (Team_opp_points, ''opp_points'')].
        acc (Team_init tpf trow r y) = py_int (tpf trow f))"
    by (simp add: Team_int_accessor_defs Team_init_attrs Team_fields_def)
  have team_float: "(\<forall>(acc, f) \<in> set
           [(Team_field_goal_percentage, ''field_goal_percentage''),
             (Team_three_point_field_goal_percentage, ''three_point_field_goal_percentage''),
             (Team_two_point_field_goal_percentage, ''two_point_field_goal_percentage''),
             (Team_free_throw_percentage, ''free_throw_percentage''),
             (Team_opp_field_goal_percentage, ''opp_field_goal_percentage''),
             (Team_opp_three_point_field_goal_percentage, ''opp_three_point_field_goal_percentage''),
             (Team_opp_two_point_field_goal_percentage, ''opp_two_point_field_goal_percentage''),
             (Team_opp_free_throw_percentage, ''opp_free_throw_percentage'')].
        acc conv (Team_init tpf trow r y) = py_float conv (tpf trow f))"
    by (simp add: Team_float_accessor_defs Team_init_attrs Team_fields_def)
  have team_str: "(\<forall>(acc, f) \<in> set [(Team_abbreviation, ''abbreviation''), (Team_name, ''name'')].
        acc (Team_init tpf trow r y) = tpf trow f)"
    by (simp add: Team_abbreviation_def Team_name_def Team_init_attrs Team_fields_def)
  have team_rank: "Team_rank (Team_init tpf trow r y) = r"
    by (simp add: Team_rank_def Team_init_def)
  have opp_abbr: "Game_opponent_abbr (Game_init pf pa pb row) = Some (pa row)"
    by (simp add: Game_opponent_abbr_def Game_init_attrs parse_game_data_def Game_fields_def)
  have boxscore: "g_attrs (Game_init pf pa pb row) ''boxscore'' = Some (pb row)"
    by (simp add: Game_init_attrs parse_game_data_def Game_fields_def)
  have datetime: "Game_datetime strptime (Game_init pf pa pb row) =
         strptime (py_str (pf row ''date'') @ '' '' @ py_str (pf row ''time''))"
    by (simp add: Game_datetime_def Game_init_attrs parse_game_data_def Game_fields_def)
  have location: "Game_location K (Game_init pf pa pb row) =
         (if pf row ''location'' = Some ''@'' then AWAY K else HOME K)"
    by (simp add: Game_location_def Game_init_attrs parse_game_data_def Game_fields_def)
  have overtime: "Game_overtime K (Game_init pf pa pb row) =
         (case pf row ''overtime'' of
            None \<Rightarrow> Inl AttributeError
          | Some s \<Rightarrow>
              if s \<in> {''ot'', ''Ot'', ''oT'', ''OT''} then Inr (PInt 1)
              else if s \<in> {''so'', ''So'', ''sO'', ''SO''} then Inr (SHOOTOUT K)
              else if \<forall>c \<in> set s. \<not> is_digit c then Inr (PInt 0)
              else
                (case int_of_str (takeWhile is_digit (dropWhile (\<lambda>c. \<not> is_digit c) s)) of
                   Inl e \<Rightarrow> Inl e
                 | Inr n \<Rightarrow> Inr (PInt n)))"
  proof (cases "pf row ''overtime''")
    case None
    then show ?thesis
      by (simp add: Game_overtime_def raw)
  next
    case (Some s)
    then have attr: "g_attrs (Game_init pf pa pb row) ''overtime'' = Some s"
      by (simp add: raw)
    show ?thesis
      unfolding Some option.case by (rule Game_overtime_cases [OF attr])
  qed
  have result: "Game_result K (Game_init pf pa pb row) =
         (case pf row ''result'' of
            None \<Rightarrow> Inl AttributeError
          | Some res \<Rightarrow>
              if res \<in> {''w'', ''W''} then Inr (WIN K)
              else if res \<in> {''l'', ''L''} then
                (case Game_overtime K (Game_init pf pa pb row) of
                   Inl e \<Rightarrow> Inl e
                 | Inr v \<Rightarrow> if v \<noteq> PInt 0 then Inr (OVERTIME_LOSS K) else Inr (LOSS K))
              else Inr (LOSS K))"
    by (simp add: Game_result_def raw lower_eq_w lower_eq_l split: option.splits)
  show ?thesis
    by (rule conjI [OF game_int conjI [OF game_str conjI [OF att conjI [OF att_plain conjI [OF
        att_comma conjI [OF team_int conjI [OF team_float conjI [OF team_str conjI [OF
        team_rank conjI [OF opp_abbr conjI [OF boxscore conjI [OF datetime conjI [OF location
        conjI [OF overtime result]]]]]]]]]]]]]])
qed

theorem accessors_return_coerced_cell_text_witness:
  "Game_goals_scored (example_game [(''goals_scored'', ''3'')]) = Inr 3
   \<and> Game_streak (example_game [(''streak'', ''W 3''), (''attendance'', ''18006'')]) = Some ''W 3''
   \<and> Game_attendance (example_game [(''streak'', ''W 3''), (''attendance'', ''18006'')]) = Inr 18006
   \<and> (\<exists>e. py_int (Some ''18,006'') = Inl e)
   \<and> Team_points (Team_init example_parse_field [(''points'', ''9304'')] 1 ''2018'') = Inr 9304
   \<and> Team_field_goal_percentage decimal_float
       (Team_init example_parse_field [(''field_goal_percentage'', ''.5'')] 1 ''2018'') = Inr (1 / 2)
   \<and> Team_name (Team_init example_parse_field [(''name'', ''Boston Celtics'')] 1 ''2018'')
       = Some ''Boston Celtics''"
proof -
  note game = accessors_return_coerced_cell_text [where pf = example_parse_field
      and pa = "\<lambda>r. ''NYR''" and pb = "\<lambda>r. ''201710050NYR.html''"]
  note team = accessors_return_coerced_cell_text [where tpf = example_parse_field and r = 1
      and y = "''2018''" and conv = decimal_float]
  have n0: "int_of_str ''3'' = Inr 3" and n1: "int_of_str ''18006'' = Inr 18006"
    and n2: "int_of_str ''9304'' = Inr 9304"
    by (simp_all add: int_of_str_eval)
  have half: "decimal_float ''.5'' = Inr (1 / 2)"
    by (simp add: decimal_float_def decimal_unsigned_def strip_def is_space_def is_digit_def
        digit_val_def digit_chars_def)
  have a: "Game_goals_scored (example_game [(''goals_scored'', ''3'')]) = Inr 3"
    using game [where row = "[(''goals_scored'', ''3'')]", THEN conjunct1,
        THEN bspec [where x = "(Game_goals_scored, ''goals_scored'')"]] n0
    by (simp add: example_game_def example_parse_field_def py_int_def)
  have b: "Game_streak (example_game [(''streak'', ''W 3''), (''attendance'', ''18006'')])
      = Some ''W 3''"
    using game [where row = "[(''streak'', ''W 3''), (''attendance'', ''18006'')]",
        THEN conjunct2, THEN conjunct1, THEN bspec [where x = "(Game_streak, ''streak'')"]]
    by (simp add: example_game_def example_parse_field_def)
  have c: "Game_attendance (example_game [(''streak'', ''W 3''), (''attendance'', ''18006'')])
      = Inr 18006"
    using game [where row = "[(''streak'', ''W 3''), (''attendance'', ''18006'')]",
        THEN conjunct2, THEN conjunct2, THEN conjunct2, THEN conjunct1,
        THEN spec [where x = "''18006''"]] n1
    by (simp add: example_game_def example_parse_field_def py_int_def)
  have d: "\<exists>e. py_int (Some ''18,006'') = Inl e"
    using game [where row = "[(''attendance'', ''18,006'')]",
        THEN conjunct2, THEN conjunct2, THEN conjunct2, THEN conjunct2, THEN conjunct1,
        THEN spec [where x = "''18,006''"]]
    by (simp add: example_parse_field_def)
  have e: "Team_points (Team_init example_parse_field [(''points'', ''9304'')] 1 ''2018'') = Inr 9304"
    using team [where trow = "[(''points'', ''9304'')]", THEN conjunct2, THEN conjunct2,
        THEN conjunct2, THEN conjunct2, THEN conjunct2, THEN conjunct1,
        THEN bspec [where x = "(Team_points, ''points'')"]] n2
    by (simp add: example_parse_field_def py_int_def)
  have f: "Team_field_goal_percentage decimal_float
       (Team_init example_parse_field [(''field_goal_percentage'', ''.5'')] 1 ''2018'') = Inr (1 / 2)"
    using team [where trow = "[(''field_goal_percentage'', ''.5'')]", THEN conjunct2,
        THEN conjunct2, THEN conjunct2, THEN conjunct2, THEN conjunct2, THEN conjunct2,
        THEN conjunct1,
        THEN bspec [where x = "(Team_field_goal_percentage, ''field_goal_percentage'')"]] half
    by (simp add: example_parse_field_def py_float_def)
  have g: "Team_name (Team_init example_parse_field [(''name'', ''Boston Celtics'')] 1 ''2018'')
       = Some ''Boston Celtics''"
    using team [where trow = "[(''name'', ''Boston Celtics'')]", THEN conjunct2, THEN conjunct2,
        THEN conjunct2, THEN conjunct2, THEN conjunct2, THEN conjunct2, THEN conjunct2,
        THEN conjunct1, THEN bspec [where x = "(Team_name, ''name'')"]]
    by (simp add: example_parse_field_def)
  show ?thesis
    by (rule conjI [OF a conjI [OF b conjI [OF c conjI [OF d conjI [OF e conjI [OF f g]]]]]])
qed

end
